theory Spec2Isabelle
  imports Main "HOL-Library.Word" "HOL-Library.Multiset" "HOL-Library.Code_Target_Numeral"
begin

section \<open>Data model\<close>

text \<open>
  The application keeps six tables in a relational store that it reaches through an
  ORM client. Rows are records, tables are lists of rows in insertion order.
  Identifiers handed out by the identity provider (Clerk ids) are strings; identifiers
  generated by the store for posts, comments and notifications are natural numbers
  drawn from a counter. Text typed by a user (post and comment content) is a list of
  UTF-16 code units, which is what \<^verbatim>\<open>content.length\<close> counts; messages written
  as literals in the source are HOL strings.
\<close>

type_synonym clerk_id = string
type_synonym row_id = nat
type_synonym js_string = "16 word list"

datatype notification_type = LIKE | COMMENT | FOLLOW

record user_row =
  u_clerkId :: clerk_id
  u_username :: string

record post_row =
  p_id :: row_id
  p_content :: js_string
  p_image :: "string option"
  p_authorId :: clerk_id
  p_createdAt :: nat

record like_row =
  l_userId :: clerk_id
  l_postId :: row_id
  l_createdAt :: nat

record follows_row =
  f_followerId :: clerk_id
  f_followingId :: clerk_id
  f_createdAt :: nat

record comment_row =
  c_id :: row_id
  c_content :: js_string
  c_postId :: row_id
  c_authorId :: clerk_id
  c_createdAt :: nat

record notification_row =
  n_id :: row_id
  n_userId :: clerk_id
  n_creatorId :: clerk_id
  n_type :: notification_type
  n_postId :: "row_id option"
  n_commentId :: "row_id option"
  n_read :: bool
  n_createdAt :: nat

record database =
  users :: "user_row list"
  posts :: "post_row list"
  likes :: "like_row list"
  follows :: "follows_row list"
  comments :: "comment_row list"
  notifications :: "notification_row list"
  next_id :: row_id
  clock :: nat

text \<open>Views that a server action marks stale with \<^verbatim>\<open>revalidatePath\<close>.\<close>

datatype path = Home | PostDetail row_id | Profile string | Explore | Notifications

text \<open>
  The world a server action runs in: the database, the schedule of failures the store
  will suffer on its next calls (\<open>None\<close>: the call goes through; \<open>Some msg\<close>: the call
  raises an error with that message; an empty schedule: no failure any more), the
  history of the errors the store has raised (kept only to state error-handling
  properties, no operation reads it), the server console and the invalidated views.
\<close>

record world =
  db :: database
  faults :: "string option list"
  raised :: "string list"
  console :: "string list"
  revalidated :: "path list"

section \<open>Computations that may throw\<close>

text \<open>
  A server action is a function from the world to a result and the world it leaves.
  \<open>Inl msg\<close> is a thrown \<^verbatim>\<open>Error\<close> with message \<open>msg\<close>.
\<close>

type_synonym 'a io = "world \<Rightarrow> (string + 'a) \<times> world"

definition io_return :: "'a \<Rightarrow> 'a io" where
  "io_return a = (\<lambda>w. (Inr a, w))"

definition io_throw :: "string \<Rightarrow> 'a io" where
  "io_throw msg = (\<lambda>w. (Inl msg, w))"

definition io_bind :: "'a io \<Rightarrow> ('a \<Rightarrow> 'b io) \<Rightarrow> 'b io" where
  "io_bind m f = (\<lambda>w. case m w of (Inl e, w') \<Rightarrow> (Inl e, w') | (Inr a, w') \<Rightarrow> f a w')"

text \<open>\<^verbatim>\<open>try { m } catch (error) { h(error.message) }\<close>\<close>

definition io_catch :: "'a io \<Rightarrow> (string \<Rightarrow> 'a io) \<Rightarrow> 'a io" where
  "io_catch m h = (\<lambda>w. case m w of (Inl e, w') \<Rightarrow> h e w' | (Inr a, w') \<Rightarrow> (Inr a, w'))"

definition console_error :: "string \<Rightarrow> string \<Rightarrow> unit io" where
  "console_error label msg = (\<lambda>w. (Inr (), w\<lparr>console := console w @ [label @ '' '' @ msg]\<rparr>))"

definition revalidatePath :: "path \<Rightarrow> unit io" where
  "revalidatePath p = (\<lambda>w. (Inr (), w\<lparr>revalidated := revalidated w @ [p]\<rparr>))"

text \<open>
  The \<^verbatim>\<open>catch\<close> block every server action ends with: log the message, then throw a
  new error whose message is the action's prefix followed by the original message.
\<close>

definition rethrow :: "string \<Rightarrow> string \<Rightarrow> string \<Rightarrow> 'a io" where
  "rethrow label prefix msg = io_bind (console_error label msg) (\<lambda>_. io_throw (prefix @ msg))"

text \<open>
  \<^verbatim>\<open>const { userId } = await auth(); if (!userId) ...\<close>: the session's user id is
  \<^verbatim>\<open>null\<close> for a signed-out caller, and \<^verbatim>\<open>!userId\<close> also holds for the empty string.
\<close>

fun authenticated :: "clerk_id option \<Rightarrow> clerk_id option" where
  "authenticated None = None"
| "authenticated (Some u) = (if u = [] then None else Some u)"

section \<open>The store\<close>

text \<open>
  One call of the ORM client. The call first meets the failure schedule; a scheduled
  failure raises without touching the database. Otherwise the query runs on the
  database; a query can itself raise (a violated uniqueness constraint or foreign
  key, a missing row for \<^verbatim>\<open>delete\<close> or \<^verbatim>\<open>update\<close>, an argument out of range), again
  leaving the database as it was.
\<close>

definition store_call :: "(database \<Rightarrow> string + 'a \<times> database) \<Rightarrow> 'a io" where
  "store_call q = (\<lambda>w.
     case faults w of
       Some msg # fs \<Rightarrow> (Inl msg, w\<lparr>faults := fs, raised := raised w @ [msg]\<rparr>)
     | _ \<Rightarrow>
        (let w1 = w\<lparr>faults := tl (faults w)\<rparr> in
         case q (db w1) of
           Inl msg \<Rightarrow> (Inl msg, w1\<lparr>raised := raised w1 @ [msg]\<rparr>)
         | Inr (a, d) \<Rightarrow> (Inr a, w1\<lparr>db := d\<rparr>)))"

text \<open>
  The answer of a query is the row itself. The relations that the source asks the
  client to include in an answer for display (the author's name and picture, the
  counts of a created post) are projections of other rows and are left out, except
  for the counts of the feed.
\<close>

text \<open>A query that only reads.\<close>

definition reading :: "(database \<Rightarrow> 'a) \<Rightarrow> database \<Rightarrow> string + 'a \<times> database" where
  "reading f d = Inr (f d, d)"

text \<open>
  Modelled from the spec: the schema file (prisma/schema.prisma) is not part of the
  sources. The foreign keys are those of the relationships in the data model of the
  specification: a Like and a Comment belong to a User and to a Post, a Post to its
  author, a Follows row to its follower and its followee, a Notification to its
  recipient and its actor. They refer to a user by the Clerk id, which is what the
  source writes to these columns. The store rejects an insert whose reference has no
  row. The optional references of a Notification to a post and a comment are not
  checked: the specification gives no rule for them.
\<close>

definition has_user :: "database \<Rightarrow> clerk_id \<Rightarrow> bool" where
  "has_user d cid = (find (\<lambda>u. u_clerkId u = cid) (users d) \<noteq> None)"

definition has_post :: "database \<Rightarrow> row_id \<Rightarrow> bool" where
  "has_post d pid = (find (\<lambda>p. p_id p = pid) (posts d) \<noteq> None)"

definition foreign_key_error :: string where
  "foreign_key_error = ''Foreign key constraint violated''"

subsection \<open>Post\<close>

text \<open>
  The source reads the author of a post through the relation of the row
  (\<^verbatim>\<open>include: {author: {select: {clerkId: true}}}\<close>, then \<^verbatim>\<open>post.author.clerkId\<close>).
  \<open>createPost\<close> stores the Clerk id of the caller in \<^verbatim>\<open>authorId\<close>, so the Clerk id of
  the author of a post row is its \<open>p_authorId\<close>.
\<close>

definition post_findUnique :: "row_id \<Rightarrow> post_row option io" where
  "post_findUnique pid = store_call (reading (\<lambda>d. find (\<lambda>p. p_id p = pid) (posts d)))"

subsection \<open>Like: composite key (userId, postId)\<close>

definition like_has_key :: "clerk_id \<Rightarrow> row_id \<Rightarrow> like_row \<Rightarrow> bool" where
  "like_has_key u pid l = (l_userId l = u \<and> l_postId l = pid)"

definition like_key :: "like_row \<Rightarrow> clerk_id \<times> row_id" where
  "like_key l = (l_userId l, l_postId l)"

definition like_findUnique :: "clerk_id \<Rightarrow> row_id \<Rightarrow> like_row option io" where
  "like_findUnique u pid = store_call (reading (\<lambda>d. find (like_has_key u pid) (likes d)))"

definition like_create :: "clerk_id \<Rightarrow> row_id \<Rightarrow> like_row io" where
  "like_create u pid = store_call (\<lambda>d.
     case find (like_has_key u pid) (likes d) of
       Some _ \<Rightarrow> Inl ''Unique constraint failed on the fields: (userId,postId)''
     | None \<Rightarrow>
        if has_user d u \<and> has_post d pid then
          (let l = \<lparr>l_userId = u, l_postId = pid, l_createdAt = clock d\<rparr>
           in Inr (l, d\<lparr>likes := likes d @ [l]\<rparr>))
        else Inl foreign_key_error)"

definition like_delete :: "clerk_id \<Rightarrow> row_id \<Rightarrow> like_row io" where
  "like_delete u pid = store_call (\<lambda>d.
     case find (like_has_key u pid) (likes d) of
       None \<Rightarrow> Inl ''Record to delete does not exist.''
     | Some l \<Rightarrow> Inr (l, d\<lparr>likes := filter (\<lambda>x. \<not> like_has_key u pid x) (likes d)\<rparr>))"

subsection \<open>Notification\<close>

text \<open>
  Modelled from the spec: the schema file (prisma/schema.prisma) is not part of the
  sources, so the defaults of a new Notification row are taken from the data model of
  the specification: an identifier of its own, the read flag unset, the creation
  timestamp.
\<close>

definition notification_create ::
  "clerk_id \<Rightarrow> clerk_id \<Rightarrow> notification_type \<Rightarrow> row_id option \<Rightarrow> row_id option \<Rightarrow> notification_row io" where
  "notification_create recipient actor ty pid cid = store_call (\<lambda>d.
     if has_user d recipient \<and> has_user d actor then
       (let n = \<lparr>n_id = next_id d, n_userId = recipient, n_creatorId = actor, n_type = ty,
                n_postId = pid, n_commentId = cid, n_read = False, n_createdAt = clock d\<rparr>
        in Inr (n, d\<lparr>notifications := notifications d @ [n], next_id := Suc (next_id d)\<rparr>))
     else Inl foreign_key_error)"

text \<open>The row that \<open>likePost\<close> asks the store to insert, as the store completes it.\<close>

definition like_notification :: "database \<Rightarrow> clerk_id \<Rightarrow> clerk_id \<Rightarrow> row_id \<Rightarrow> notification_row" where
  "like_notification d recipient actor pid =
     \<lparr>n_id = next_id d, n_userId = recipient, n_creatorId = actor, n_type = LIKE,
      n_postId = Some pid, n_commentId = None, n_read = False, n_createdAt = clock d\<rparr>"

definition notification_matches ::
  "clerk_id \<Rightarrow> clerk_id \<Rightarrow> notification_type \<Rightarrow> row_id option \<Rightarrow> notification_row \<Rightarrow> bool" where
  "notification_matches recipient actor ty pid n =
     (n_userId n = recipient \<and> n_creatorId n = actor \<and> n_type n = ty \<and> n_postId n = pid)"

definition notification_findFirst ::
  "clerk_id \<Rightarrow> clerk_id \<Rightarrow> notification_type \<Rightarrow> row_id option \<Rightarrow> notification_row option io" where
  "notification_findFirst recipient actor ty pid =
     store_call (reading (\<lambda>d. find (notification_matches recipient actor ty pid) (notifications d)))"

text \<open>
  A notification is genuine when its actor is not its recipient. \<open>adds_genuine d d'\<close>:
  the Notification table of \<open>d'\<close> is the one of \<open>d\<close> followed by rows that are
  all genuine.
\<close>

definition genuine :: "notification_row \<Rightarrow> bool" where
  "genuine n = (n_creatorId n \<noteq> n_userId n)"

definition adds_genuine :: "database \<Rightarrow> database \<Rightarrow> bool" where
  "adds_genuine d d' =
     (take (length (notifications d)) (notifications d') = notifications d
      \<and> list_all genuine (drop (length (notifications d)) (notifications d')))"

text \<open>\<open>keeps I m\<close>: the action \<open>m\<close> preserves the invariant \<open>I\<close> of the database.\<close>

definition keeps :: "(database \<Rightarrow> bool) \<Rightarrow> 'a io \<Rightarrow> bool" where
  "keeps I m = (\<forall>w. I (db w) \<longrightarrow> I (db (snd (m w))))"

text \<open>
  \<open>surfaces prefix w rw\<close>: in the run from world \<open>w\<close> to the outcome \<open>rw\<close> either
  the store raised nothing, or it raised one error and the run ended by throwing the
  error whose message is \<open>prefix\<close> followed by the message of the store.
\<close>

definition surfaces :: "string \<Rightarrow> world \<Rightarrow> (string + 'a) \<times> world \<Rightarrow> bool" where
  "surfaces prefix w rw =
     (raised (snd rw) = raised w
      \<or> (case fst rw of
            Inl e \<Rightarrow> take (length prefix) e = prefix
                     \<and> raised (snd rw) = raised w @ [drop (length prefix) e]
          | Inr _ \<Rightarrow> False))"

section \<open>Like and unlike (like.action.ts)\<close>

text \<open>The two shapes a mutation returns: \<^verbatim>\<open>{success: true, ...}\<close> and \<^verbatim>\<open>{success: false, message}\<close>.\<close>

datatype 'a result = SuccessTrue 'a | SuccessFalse string

definition likePost_body :: "clerk_id option \<Rightarrow> row_id \<Rightarrow> like_row result io" where
  "likePost_body session postId =
     (case authenticated session of
        None \<Rightarrow> io_throw ''Unauthorized: Must be logged in to like''
      | Some userId \<Rightarrow>
          io_bind (post_findUnique postId) (\<lambda>post.
          case post of
            None \<Rightarrow> io_throw ''Post not found''
          | Some post \<Rightarrow>
              io_bind (like_findUnique userId postId) (\<lambda>existingLike.
              case existingLike of
                Some _ \<Rightarrow> io_return (SuccessFalse ''Post already liked'')
              | None \<Rightarrow>
                  io_bind (like_create userId postId) (\<lambda>like.
                  io_bind
                    (if p_authorId post \<noteq> userId then
                       io_bind (notification_findFirst (p_authorId post) userId LIKE (Some postId))
                         (\<lambda>existingNotification.
                           case existingNotification of
                             Some _ \<Rightarrow> io_return ()
                           | None \<Rightarrow>
                               io_bind (notification_create (p_authorId post) userId LIKE (Some postId) None)
                                 (\<lambda>_. io_return ()))
                     else io_return ())
                    (\<lambda>_.
                  io_bind (revalidatePath Home) (\<lambda>_.
                  io_bind (revalidatePath (PostDetail postId)) (\<lambda>_.
                  io_return (SuccessTrue like))))))))"

definition likePost :: "clerk_id option \<Rightarrow> row_id \<Rightarrow> like_row result io" where
  "likePost session postId =
     io_catch (likePost_body session postId)
       (rethrow ''Error liking post:'' ''Failed to like post: '')"

text \<open>
  \<^verbatim>\<open>prisma.like.delete(...).catch(() => null)\<close>: whatever the delete call raises is
  replaced by \<^verbatim>\<open>null\<close>.
\<close>

definition unlikePost_body :: "clerk_id option \<Rightarrow> row_id \<Rightarrow> string result io" where
  "unlikePost_body session postId =
     (case authenticated session of
        None \<Rightarrow> io_throw ''Unauthorized: Must be logged in''
      | Some userId \<Rightarrow>
          io_bind (io_catch (io_bind (like_delete userId postId) (\<lambda>l. io_return (Some l)))
                            (\<lambda>_. io_return None))
            (\<lambda>deletedLike.
              case deletedLike of
                None \<Rightarrow> io_return (SuccessFalse ''Post not liked'')
              | Some _ \<Rightarrow>
                  io_bind (revalidatePath Home) (\<lambda>_.
                  io_bind (revalidatePath (PostDetail postId)) (\<lambda>_.
                  io_return (SuccessTrue ''Post unliked'')))))"

definition unlikePost :: "clerk_id option \<Rightarrow> row_id \<Rightarrow> string result io" where
  "unlikePost session postId =
     io_catch (unlikePost_body session postId)
       (rethrow ''Error unliking post:'' ''Failed to unlike post: '')"

definition hasUserLikedPost :: "clerk_id option \<Rightarrow> row_id \<Rightarrow> bool io" where
  "hasUserLikedPost session postId =
     io_catch
       (case authenticated session of
          None \<Rightarrow> io_return False
        | Some userId \<Rightarrow>
            io_bind (like_findUnique userId postId) (\<lambda>like. io_return (like \<noteq> None)))
       (\<lambda>msg. io_bind (console_error ''Error checking like status:'' msg) (\<lambda>_. io_return False))"

subsection \<open>User and Follows: composite key (followerId, followingId)\<close>

definition user_findUnique :: "clerk_id \<Rightarrow> user_row option io" where
  "user_findUnique cid = store_call (reading (\<lambda>d. find (\<lambda>u. u_clerkId u = cid) (users d)))"

definition follows_has_key :: "clerk_id \<Rightarrow> clerk_id \<Rightarrow> follows_row \<Rightarrow> bool" where
  "follows_has_key a b f = (f_followerId f = a \<and> f_followingId f = b)"

text \<open>The invariant of the Follows table: nobody follows themselves.\<close>

definition no_self_follow :: "database \<Rightarrow> bool" where
  "no_self_follow d = list_all (\<lambda>f. f_followerId f \<noteq> f_followingId f) (follows d)"

definition follows_findUnique :: "clerk_id \<Rightarrow> clerk_id \<Rightarrow> follows_row option io" where
  "follows_findUnique a b = store_call (reading (\<lambda>d. find (follows_has_key a b) (follows d)))"

definition follows_create :: "clerk_id \<Rightarrow> clerk_id \<Rightarrow> follows_row io" where
  "follows_create a b = store_call (\<lambda>d.
     case find (follows_has_key a b) (follows d) of
       Some _ \<Rightarrow> Inl ''Unique constraint failed on the fields: (followerId,followingId)''
     | None \<Rightarrow>
        if has_user d a \<and> has_user d b then
          (let f = \<lparr>f_followerId = a, f_followingId = b, f_createdAt = clock d\<rparr>
           in Inr (f, d\<lparr>follows := follows d @ [f]\<rparr>))
        else Inl foreign_key_error)"

definition follows_delete :: "clerk_id \<Rightarrow> clerk_id \<Rightarrow> follows_row io" where
  "follows_delete a b = store_call (\<lambda>d.
     case find (follows_has_key a b) (follows d) of
       None \<Rightarrow> Inl ''Record to delete does not exist.''
     | Some f \<Rightarrow> Inr (f, d\<lparr>follows := filter (\<lambda>x. \<not> follows_has_key a b x) (follows d)\<rparr>))"

section \<open>Follow and unfollow (follow.action.ts)\<close>

definition followUser_body :: "clerk_id option \<Rightarrow> clerk_id \<Rightarrow> follows_row result io" where
  "followUser_body session followingId =
     (case authenticated session of
        None \<Rightarrow> io_throw ''Unauthorized: Must be logged in to follow''
      | Some userId \<Rightarrow>
          if userId = followingId then io_throw ''You cannot follow yourself''
          else
            io_bind (user_findUnique followingId) (\<lambda>userToFollow.
            case userToFollow of
              None \<Rightarrow> io_throw ''User not found''
            | Some userToFollow \<Rightarrow>
                io_bind (follows_findUnique userId followingId) (\<lambda>existingFollow.
                case existingFollow of
                  Some _ \<Rightarrow> io_return (SuccessFalse ''Already following user'')
                | None \<Rightarrow>
                    io_bind (follows_create userId followingId) (\<lambda>follow.
                    io_bind (notification_create followingId userId FOLLOW None None) (\<lambda>_.
                    io_bind (revalidatePath (Profile (u_username userToFollow))) (\<lambda>_.
                    io_bind (revalidatePath Explore) (\<lambda>_.
                    io_bind (revalidatePath Home) (\<lambda>_.
                    io_return (SuccessTrue follow)))))))))"

definition followUser :: "clerk_id option \<Rightarrow> clerk_id \<Rightarrow> follows_row result io" where
  "followUser session followingId =
     io_catch (followUser_body session followingId)
       (rethrow ''Error following user:'' ''Failed to follow user: '')"

definition unfollowUser_body :: "clerk_id option \<Rightarrow> clerk_id \<Rightarrow> string result io" where
  "unfollowUser_body session followingId =
     (case authenticated session of
        None \<Rightarrow> io_throw ''Unauthorized: Must be logged in''
      | Some userId \<Rightarrow>
          io_bind (io_catch (io_bind (follows_delete userId followingId) (\<lambda>f. io_return (Some f)))
                            (\<lambda>_. io_return None))
            (\<lambda>deletedFollow.
              case deletedFollow of
                None \<Rightarrow> io_return (SuccessFalse ''Not following user'')
              | Some _ \<Rightarrow>
                  io_bind (user_findUnique followingId) (\<lambda>user.
                  io_bind (case user of
                             Some u \<Rightarrow> revalidatePath (Profile (u_username u))
                           | None \<Rightarrow> io_return ()) (\<lambda>_.
                  io_bind (revalidatePath Explore) (\<lambda>_.
                  io_bind (revalidatePath Home) (\<lambda>_.
                  io_return (SuccessTrue ''User unfollowed'')))))))"

definition unfollowUser :: "clerk_id option \<Rightarrow> clerk_id \<Rightarrow> string result io" where
  "unfollowUser session followingId =
     io_catch (unfollowUser_body session followingId)
       (rethrow ''Error unfollowing user:'' ''Failed to unfollow user: '')"

definition isFollowing :: "clerk_id option \<Rightarrow> clerk_id \<Rightarrow> bool io" where
  "isFollowing session targetUserId =
     io_catch
       (case authenticated session of
          None \<Rightarrow> io_return False
        | Some userId \<Rightarrow>
            io_bind (follows_findUnique userId targetUserId) (\<lambda>follow. io_return (follow \<noteq> None)))
       (\<lambda>msg. io_bind (console_error ''Error checking follow status:'' msg) (\<lambda>_. io_return False))"

section \<open>Posts (post.action.ts)\<close>

text \<open>
  \<^verbatim>\<open>String.prototype.trim\<close> removes the white space and line terminator code units of
  ECMAScript from both ends of a string.
\<close>

definition js_whitespace :: "16 word \<Rightarrow> bool" where
  "js_whitespace c =
     (c \<in> {0x0009, 0x000A, 0x000B, 0x000C, 0x000D, 0x0020, 0x00A0, 0x1680,
           0x2000, 0x2001, 0x2002, 0x2003, 0x2004, 0x2005, 0x2006, 0x2007, 0x2008, 0x2009, 0x200A,
           0x2028, 0x2029, 0x202F, 0x205F, 0x3000, 0xFEFF})"

definition trim :: "js_string \<Rightarrow> js_string" where
  "trim s = rev (dropWhile js_whitespace (rev (dropWhile js_whitespace s)))"

text \<open>
  Modelled from the spec: the schema file is not part of the sources; a new Post row
  gets an identifier of its own and its creation timestamp from the store.
\<close>

definition post_create :: "js_string \<Rightarrow> string option \<Rightarrow> clerk_id \<Rightarrow> post_row io" where
  "post_create content img author = store_call (\<lambda>d.
     if has_user d author then
       (let p = \<lparr>p_id = next_id d, p_content = content, p_image = img, p_authorId = author,
                p_createdAt = clock d\<rparr>
        in Inr (p, d\<lparr>posts := posts d @ [p], next_id := Suc (next_id d)\<rparr>))
     else Inl foreign_key_error)"

text \<open>
  Modelled from the spec: the cascade rules live in the schema file, which is not part
  of the sources; deleting a Post row removes its Comment and Like rows with it.
\<close>

definition post_delete :: "row_id \<Rightarrow> unit io" where
  "post_delete pid = store_call (\<lambda>d.
     case find (\<lambda>p. p_id p = pid) (posts d) of
       None \<Rightarrow> Inl ''Record to delete does not exist.''
     | Some _ \<Rightarrow>
         Inr ((), d\<lparr>posts := filter (\<lambda>p. p_id p \<noteq> pid) (posts d),
                     comments := filter (\<lambda>c. c_postId c \<noteq> pid) (comments d),
                     likes := filter (\<lambda>l. l_postId l \<noteq> pid) (likes d)\<rparr>))"

text \<open>
  \<^verbatim>\<open>currentUser()\<close> is a call to the identity provider; its answer (a user object
  or \<^verbatim>\<open>null\<close>) is a parameter, and only its presence matters here.
  \<^verbatim>\<open>imageUrl || null\<close> turns a missing and an empty image URL into \<^verbatim>\<open>null\<close>.
\<close>

definition createPost_body ::
  "clerk_id option \<Rightarrow> 'u option \<Rightarrow> js_string \<Rightarrow> string option \<Rightarrow> post_row io" where
  "createPost_body session current content imageUrl =
     (case authenticated session of
        None \<Rightarrow> io_throw ''Unauthorized: Must be logged in to create post''
      | Some userId \<Rightarrow>
         (case current of
            None \<Rightarrow> io_throw ''User not found''
          | Some _ \<Rightarrow>
              if trim content = [] then io_throw ''Post content cannot be empty''
              else if length content > 280 then io_throw ''Post must be 280 characters or less''
              else
                io_bind (post_create (trim content)
                           (case imageUrl of None \<Rightarrow> None | Some url \<Rightarrow> if url = [] then None else Some url)
                           userId) (\<lambda>post.
                io_bind (revalidatePath Home) (\<lambda>_.
                io_return post))))"

definition createPost ::
  "clerk_id option \<Rightarrow> 'u option \<Rightarrow> js_string \<Rightarrow> string option \<Rightarrow> post_row io" where
  "createPost session current content imageUrl =
     io_catch (createPost_body session current content imageUrl)
       (rethrow ''Error creating post:'' ''Failed to create post: '')"

definition deletePost_body :: "clerk_id option \<Rightarrow> row_id \<Rightarrow> string result io" where
  "deletePost_body session postId =
     (case authenticated session of
        None \<Rightarrow> io_throw ''Unauthorized: Must be logged in''
      | Some userId \<Rightarrow>
          io_bind (post_findUnique postId) (\<lambda>post.
          case post of
            None \<Rightarrow> io_throw ''Post not found''
          | Some post \<Rightarrow>
              if p_authorId post \<noteq> userId
              then io_throw ''Unauthorized: You can only delete your own posts''
              else
                io_bind (post_delete postId) (\<lambda>_.
                io_bind (revalidatePath Home) (\<lambda>_.
                io_return (SuccessTrue ''Post deleted successfully'')))))"

definition deletePost :: "clerk_id option \<Rightarrow> row_id \<Rightarrow> string result io" where
  "deletePost session postId =
     io_catch (deletePost_body session postId)
       (rethrow ''Error deleting post:'' ''Failed to delete post: '')"

subsection \<open>The feed\<close>

text \<open>A post of the feed with its \<^verbatim>\<open>_count\<close> of comments and likes.\<close>

record feed_post =
  fp_post :: post_row
  fp_comments :: nat
  fp_likes :: nat

definition with_counts :: "database \<Rightarrow> post_row \<Rightarrow> feed_post" where
  "with_counts d p =
     \<lparr>fp_post = p,
      fp_comments = length (filter (\<lambda>c. c_postId c = p_id p) (comments d)),
      fp_likes = length (filter (\<lambda>l. l_postId l = p_id p) (likes d))\<rparr>"

text \<open>All posts, newest first (\<^verbatim>\<open>orderBy: {createdAt: "desc"}\<close>).\<close>

definition newest_first :: "post_row list \<Rightarrow> post_row list" where
  "newest_first ps = rev (sort_key p_createdAt ps)"

text \<open>
  \<^verbatim>\<open>findMany\<close> with \<^verbatim>\<open>take\<close> and \<^verbatim>\<open>skip\<close>: the client rejects a value that
  does not fit a signed 64-bit integer and a negative \<^verbatim>\<open>skip\<close>; a negative
  \<^verbatim>\<open>take\<close> counts rows from the end of the ordering.
\<close>

definition int64 :: "int \<Rightarrow> bool" where
  "int64 x = (- (2 ^ 63) \<le> x \<and> x < 2 ^ 63)"

definition out_of_range_error :: string where
  "out_of_range_error = ''Unable to fit integer value into a 64-bit signed integer''"

definition post_findMany :: "int \<Rightarrow> int \<Rightarrow> feed_post list io" where
  "post_findMany tk sk = store_call (\<lambda>d.
     if \<not> (int64 tk \<and> int64 sk) then Inl out_of_range_error
     else if sk < 0 then Inl ''Invalid value for skip argument: Value can only be positive''
     else
       (let ordered = newest_first (posts d);
            rows = (if 0 \<le> tk then take (nat tk) (drop (nat sk) ordered)
                    else rev (take (nat (- tk)) (drop (nat sk) (rev ordered))))
        in Inr (map (with_counts d) rows, d)))"

definition post_count :: "int io" where
  "post_count = store_call (reading (\<lambda>d. int (length (posts d))))"

record feed =
  feed_posts :: "feed_post list"
  feed_total :: int
  feed_page :: int
  feed_limit :: int
  feed_hasMore :: bool

text \<open>
  \<^verbatim>\<open>page\<close> and \<^verbatim>\<open>limit\<close> are JavaScript numbers, that is doubles. The model
  covers the numbers that hold an integer. A double holds every integer of absolute
  value up to \<open>2^53\<close>; beyond, it holds the integers with 53 significant bits. The
  result of \<^verbatim>\<open>-\<close>, \<^verbatim>\<open>*\<close> and \<^verbatim>\<open>+\<close> on such numbers is the exact result rounded
  to the nearest integer a double holds, a tie going to the even significand.
  (\<^verbatim>\<open>Infinity\<close> is not modelled: a result past the largest double stays a large
  integer, which is as far outside the range the client accepts.)
\<close>

fun bit_length :: "nat \<Rightarrow> nat" where
  "bit_length n = (if n = 0 then 0 else Suc (bit_length (n div 2)))"

declare bit_length.simps [simp del]

definition js_number :: "int \<Rightarrow> int" where
  "js_number x =
     (let m = nat \<bar>x\<bar> in
      if m \<le> 2 ^ 53 then x
      else
        (let ulp = 2 ^ (bit_length m - 53);
             q = m div ulp;
             r = m mod ulp;
             q' = (if 2 * r < ulp then q
                   else if ulp < 2 * r then q + 1
                   else if even q then q else q + 1)
         in sgn x * int (q' * ulp)))"

definition js_sub :: "int \<Rightarrow> int \<Rightarrow> int" where
  "js_sub a b = js_number (a - b)"

definition js_mul :: "int \<Rightarrow> int \<Rightarrow> int" where
  "js_mul a b = js_number (a * b)"

definition js_add :: "int \<Rightarrow> int \<Rightarrow> int" where
  "js_add a b = js_number (a + b)"

definition getFeedPosts :: "int \<Rightarrow> int \<Rightarrow> feed io" where
  "getFeedPosts page limit =
     io_catch
       (let offset = js_mul (js_sub page 1) limit in
        io_bind (post_findMany limit offset) (\<lambda>posts.
        io_bind post_count (\<lambda>total.
        io_return \<lparr>feed_posts = posts, feed_total = total, feed_page = page, feed_limit = limit,
                   feed_hasMore = (js_add offset limit < total)\<rparr>)))
       (rethrow ''Error fetching feed:'' ''Failed to fetch feed: '')"

section \<open>Comments (comment.action.ts)\<close>

text \<open>
  Modelled from the spec: the schema file is not part of the sources; a new Comment row
  gets an identifier of its own and its creation timestamp from the store.
\<close>

definition comment_create :: "js_string \<Rightarrow> row_id \<Rightarrow> clerk_id \<Rightarrow> comment_row io" where
  "comment_create content pid author = store_call (\<lambda>d.
     if has_user d author \<and> has_post d pid then
       (let c = \<lparr>c_id = next_id d, c_content = content, c_postId = pid, c_authorId = author,
                c_createdAt = clock d\<rparr>
        in Inr (c, d\<lparr>comments := comments d @ [c], next_id := Suc (next_id d)\<rparr>))
     else Inl foreign_key_error)"

definition comment_findUnique :: "row_id \<Rightarrow> comment_row option io" where
  "comment_findUnique cid = store_call (reading (\<lambda>d. find (\<lambda>c. c_id c = cid) (comments d)))"

definition comment_delete :: "row_id \<Rightarrow> unit io" where
  "comment_delete cid = store_call (\<lambda>d.
     case find (\<lambda>c. c_id c = cid) (comments d) of
       None \<Rightarrow> Inl ''Record to delete does not exist.''
     | Some _ \<Rightarrow> Inr ((), d\<lparr>comments := filter (\<lambda>c. c_id c \<noteq> cid) (comments d)\<rparr>))"

definition createComment_body :: "clerk_id option \<Rightarrow> row_id \<Rightarrow> js_string \<Rightarrow> comment_row io" where
  "createComment_body session postId content =
     (case authenticated session of
        None \<Rightarrow> io_throw ''Unauthorized: Must be logged in to comment''
      | Some userId \<Rightarrow>
          if trim content = [] then io_throw ''Comment cannot be empty''
          else
            io_bind (post_findUnique postId) (\<lambda>post.
            case post of
              None \<Rightarrow> io_throw ''Post not found''
            | Some post \<Rightarrow>
                io_bind (comment_create (trim content) postId userId) (\<lambda>comment.
                io_bind
                  (if p_authorId post \<noteq> userId then
                     io_bind (notification_create (p_authorId post) userId COMMENT (Some postId)
                                (Some (c_id comment)))
                       (\<lambda>_. io_return ())
                   else io_return ())
                  (\<lambda>_.
                io_bind (revalidatePath (PostDetail postId)) (\<lambda>_.
                io_bind (revalidatePath Home) (\<lambda>_.
                io_return comment))))))"

definition createComment :: "clerk_id option \<Rightarrow> row_id \<Rightarrow> js_string \<Rightarrow> comment_row io" where
  "createComment session postId content =
     io_catch (createComment_body session postId content)
       (rethrow ''Error creating comment:'' ''Failed to create comment: '')"

definition deleteComment_body :: "clerk_id option \<Rightarrow> row_id \<Rightarrow> string result io" where
  "deleteComment_body session commentId =
     (case authenticated session of
        None \<Rightarrow> io_throw ''Unauthorized: Must be logged in''
      | Some userId \<Rightarrow>
          io_bind (comment_findUnique commentId) (\<lambda>comment.
          case comment of
            None \<Rightarrow> io_throw ''Comment not found''
          | Some comment \<Rightarrow>
              if c_authorId comment \<noteq> userId
              then io_throw ''Unauthorized: You can only delete your own comments''
              else
                io_bind (comment_delete commentId) (\<lambda>_.
                io_bind (revalidatePath (PostDetail (c_postId comment))) (\<lambda>_.
                io_bind (revalidatePath Home) (\<lambda>_.
                io_return (SuccessTrue ''Comment deleted successfully''))))))"

definition deleteComment :: "clerk_id option \<Rightarrow> row_id \<Rightarrow> string result io" where
  "deleteComment session commentId =
     io_catch (deleteComment_body session commentId)
       (rethrow ''Error deleting comment:'' ''Failed to delete comment: '')"

section \<open>Notifications (notification.action.ts)\<close>

definition notification_findUnique :: "row_id \<Rightarrow> notification_row option io" where
  "notification_findUnique nid = store_call (reading (\<lambda>d. find (\<lambda>n. n_id n = nid) (notifications d)))"

definition notification_update_read :: "row_id \<Rightarrow> notification_row io" where
  "notification_update_read nid = store_call (\<lambda>d.
     case find (\<lambda>n. n_id n = nid) (notifications d) of
       None \<Rightarrow> Inl ''Record to update not found.''
     | Some n \<Rightarrow>
         Inr (n\<lparr>n_read := True\<rparr>,
              d\<lparr>notifications :=
                   map (\<lambda>x. if n_id x = nid then x\<lparr>n_read := True\<rparr> else x) (notifications d)\<rparr>))"

definition notification_count_unread :: "clerk_id \<Rightarrow> nat io" where
  "notification_count_unread u =
     store_call (reading (\<lambda>d. length (filter (\<lambda>n. n_userId n = u \<and> \<not> n_read n) (notifications d))))"

definition markNotificationAsRead_body :: "clerk_id option \<Rightarrow> row_id \<Rightarrow> notification_row io" where
  "markNotificationAsRead_body session notificationId =
     (case authenticated session of
        None \<Rightarrow> io_throw ''Unauthorized: Must be logged in''
      | Some userId \<Rightarrow>
          io_bind (notification_findUnique notificationId) (\<lambda>notification.
          case notification of
            None \<Rightarrow> io_throw ''Notification not found''
          | Some notification \<Rightarrow>
              if n_userId notification \<noteq> userId
              then io_throw ''Unauthorized: You can only update your own notifications''
              else
                io_bind (notification_update_read notificationId) (\<lambda>updated.
                io_bind (revalidatePath Notifications) (\<lambda>_.
                io_return updated))))"

definition markNotificationAsRead :: "clerk_id option \<Rightarrow> row_id \<Rightarrow> notification_row io" where
  "markNotificationAsRead session notificationId =
     io_catch (markNotificationAsRead_body session notificationId)
       (rethrow ''Error marking notification as read:'' ''Failed to mark notification: '')"

definition getUnreadNotificationCount :: "clerk_id option \<Rightarrow> nat io" where
  "getUnreadNotificationCount session =
     io_catch
       (case authenticated session of
          None \<Rightarrow> io_return 0
        | Some userId \<Rightarrow> notification_count_unread userId)
       (\<lambda>msg. io_bind (console_error ''Error fetching unread count:'' msg) (\<lambda>_. io_return 0))"

section \<open>Optimistic widgets (Post.tsx, FollowButton.tsx, CommentsSection.tsx)\<close>

text \<open>
  A click handler is modelled against the outcome of the one server action it awaits:
  \<open>Inl msg\<close> when the promise rejects with an error of message \<open>msg\<close>, \<open>Inr v\<close>
  when it resolves. The handler returns the component state it leaves and the effects
  it had outside the component state, in order.
\<close>

datatype server_call =
    LikePost row_id
  | UnlikePost row_id
  | FollowUser clerk_id
  | UnfollowUser clerk_id
  | CreateComment row_id js_string

datatype ui_effect =
    Invoke server_call
  | RouterRefresh
  | ConsoleError string string
  | Unhandled string

subsection \<open>Like button\<close>

record post_widget =
  isLiked :: bool
  likeCount :: int
  isDeleting :: bool

definition handleLike ::
  "'u option \<Rightarrow> row_id \<Rightarrow> string + 'r \<Rightarrow> post_widget \<Rightarrow> post_widget \<times> ui_effect list" where
  "handleLike user postId outcome st =
     (case user of
        None \<Rightarrow> (st, [])
      | Some _ \<Rightarrow>
         (let previousIsLiked = isLiked st;
              previousCount = likeCount st;
              st1 = st\<lparr>isLiked := \<not> isLiked st,
                       likeCount := (if \<not> isLiked st then likeCount st + 1 else likeCount st - 1)\<rparr>;
              call = (if isLiked st then UnlikePost postId else LikePost postId)
          in case outcome of
               Inr _ \<Rightarrow> (st1, [Invoke call, RouterRefresh])
             | Inl msg \<Rightarrow>
                 (st1\<lparr>isLiked := previousIsLiked, likeCount := previousCount\<rparr>,
                  [Invoke call, ConsoleError ''Error updating like:'' msg])))"

subsection \<open>Follow button\<close>

record follow_widget =
  isUserFollowing :: bool
  isLoading :: bool
  isSubmitting :: bool

definition handleFollowToggle ::
  "clerk_id \<Rightarrow> string + 'r \<Rightarrow> follow_widget \<Rightarrow> follow_widget \<times> ui_effect list" where
  "handleFollowToggle userId outcome st =
     (let previousFollowing = isUserFollowing st;
          st1 = st\<lparr>isSubmitting := True, isUserFollowing := \<not> previousFollowing\<rparr>;
          call = (if previousFollowing then UnfollowUser userId else FollowUser userId)
      in case outcome of
           Inr _ \<Rightarrow> (st1\<lparr>isSubmitting := False\<rparr>, [Invoke call, RouterRefresh])
         | Inl msg \<Rightarrow>
             (st1\<lparr>isUserFollowing := previousFollowing, isSubmitting := False\<rparr>,
              [Invoke call, ConsoleError ''Error toggling follow:'' msg]))"

subsection \<open>Comment composer\<close>

text \<open>
  A comment shown in the list carries either the temporary identifier
  \<^verbatim>\<open>temp-<Date.now()>\<close> of an optimistic entry or the identifier the server gave it;
  the two kinds never coincide.
\<close>

datatype comment_id = TempId nat | ServerId string

record ui_author =
  a_id :: string
  a_name :: "string option"
  a_username :: string
  a_image :: "string option"

record ui_comment =
  cm_id :: comment_id
  cm_content :: js_string
  cm_createdAt :: nat
  cm_author :: ui_author

text \<open>
  The signed-in user as the identity provider's client hook gives it. In the state of
  the composer the fields \<^verbatim>\<open>comments\<close>, \<^verbatim>\<open>isSubmitting\<close> and \<^verbatim>\<open>error\<close> of the
  source are \<open>comments_shown\<close>, \<open>submitting\<close> and \<open>error_shown\<close>.
\<close>

record client_user =
  cu_id :: string
  cu_fullName :: "string option"
  cu_username :: "string option"
  cu_emailAddresses :: "string list"
  cu_imageUrl :: string

record comments_widget =
  comments_shown :: "ui_comment list"
  commentText :: js_string
  submitting :: bool
  error_shown :: "string option"
  deletingCommentId :: "comment_id option"

text \<open>
  \<^verbatim>\<open>user.username || user.emailAddresses[0].emailAddress.split("@")[0]\<close>; reading
  the first address of a user without addresses is a \<^verbatim>\<open>TypeError\<close>.
\<close>

definition display_username :: "client_user \<Rightarrow> string option" where
  "display_username user =
     (case cu_username user of
        Some n \<Rightarrow> if n \<noteq> [] then Some n
                  else (case cu_emailAddresses user of [] \<Rightarrow> None
                        | e # _ \<Rightarrow> Some (takeWhile (\<lambda>c. c \<noteq> CHR ''@'') e))
      | None \<Rightarrow> (case cu_emailAddresses user of [] \<Rightarrow> None
                 | e # _ \<Rightarrow> Some (takeWhile (\<lambda>c. c \<noteq> CHR ''@'') e)))"

definition handleSubmitComment ::
  "client_user option \<Rightarrow> row_id \<Rightarrow> nat \<Rightarrow> string + ui_comment \<Rightarrow> comments_widget
     \<Rightarrow> comments_widget \<times> ui_effect list" where
  "handleSubmitComment user postId now outcome st =
     (case user of
        None \<Rightarrow> (st\<lparr>error_shown := Some ''You must be signed in to comment''\<rparr>, [])
      | Some user \<Rightarrow>
          if trim (commentText st) = [] then (st\<lparr>error_shown := Some ''Comment cannot be empty''\<rparr>, [])
          else
            (let st1 = st\<lparr>submitting := True, error_shown := None\<rparr> in
             case display_username user of
               None \<Rightarrow> (st1, [Unhandled ''TypeError''])
             | Some username \<Rightarrow>
                (let optimisticComment =
                       \<lparr>cm_id = TempId now, cm_content = commentText st, cm_createdAt = now,
                        cm_author = \<lparr>a_id = cu_id user, a_name = cu_fullName user,
                                     a_username = username, a_image = Some (cu_imageUrl user)\<rparr>\<rparr>;
                     st2 = st1\<lparr>comments_shown := optimisticComment # comments_shown st1,
                               commentText := []\<rparr>;
                     call = CreateComment postId (commentText st)
                 in case outcome of
                      Inr newComment \<Rightarrow>
                        (st2\<lparr>comments_shown :=
                               map (\<lambda>c. if cm_id c = cm_id optimisticComment then newComment else c)
                                 (comments_shown st2),
                             submitting := False\<rparr>,
                         [Invoke call, RouterRefresh])
                    | Inl msg \<Rightarrow>
                        (st2\<lparr>comments_shown :=
                               filter (\<lambda>c. cm_id c \<noteq> cm_id optimisticComment) (comments_shown st2),
                             error_shown := Some msg,
                             submitting := False\<rparr>,
                         [Invoke call]))))"

section \<open>Example worlds\<close>

text \<open>
  Two users, one post \<^verbatim>\<open>hello\<close> written by the first of them, and a store that does
  not fail.
\<close>

definition hello :: js_string where
  "hello = [0x68, 0x65, 0x6C, 0x6C, 0x6F]"

definition demo_post :: post_row where
  "demo_post = \<lparr>p_id = 1, p_content = hello, p_image = None, p_authorId = ''alice'', p_createdAt = 5\<rparr>"

definition demo_db :: database where
  "demo_db =
     \<lparr>users = [\<lparr>u_clerkId = ''alice'', u_username = ''al''\<rparr>, \<lparr>u_clerkId = ''bob'', u_username = ''bo''\<rparr>],
      posts = [demo_post], likes = [], follows = [], comments = [], notifications = [],
      next_id = 2, clock = 7\<rparr>"

definition demo_world :: world where
  "demo_world = \<lparr>db = demo_db, faults = [], raised = [], console = [], revalidated = []\<rparr>"

text \<open>The like that \<open>bob\<close> gives to the post, and the notification it sends to \<open>alice\<close>.\<close>

definition demo_like :: like_row where
  "demo_like = \<lparr>l_userId = ''bob'', l_postId = 1, l_createdAt = 7\<rparr>"

definition demo_notification :: notification_row where
  "demo_notification =
     \<lparr>n_id = 2, n_userId = ''alice'', n_creatorId = ''bob'', n_type = LIKE, n_postId = Some 1,
      n_commentId = None, n_read = False, n_createdAt = 7\<rparr>"

text \<open>The world after \<open>bob\<close> has liked the post.\<close>

definition liked_world :: world where
  "liked_world =
     demo_world\<lparr>db := demo_db\<lparr>likes := [demo_like], notifications := [demo_notification], next_id := 3\<rparr>,
                revalidated := [Home, PostDetail 1]\<rparr>"

text \<open>The world after \<open>alice\<close> has then marked the notification as read.\<close>

definition read_world :: world where
  "read_world =
     demo_world\<lparr>db := demo_db\<lparr>likes := [demo_like],
                              notifications := [demo_notification\<lparr>n_read := True\<rparr>], next_id := 3\<rparr>,
                revalidated := [Home, PostDetail 1, Notifications]\<rparr>"

text \<open>The world after \<open>bob\<close> has then taken the like back.\<close>

definition unliked_world :: world where
  "unliked_world =
     demo_world\<lparr>db := demo_db\<lparr>notifications := [demo_notification\<lparr>n_read := True\<rparr>], next_id := 3\<rparr>,
                revalidated := [Home, PostDetail 1, Notifications, Home, PostDetail 1]\<rparr>"

text \<open>A LIKE notification from \<open>actor\<close> to \<open>recipient\<close> about post \<open>pid\<close> that is still unread.\<close>

definition unread_like_notification :: "clerk_id \<Rightarrow> clerk_id \<Rightarrow> row_id \<Rightarrow> notification_row \<Rightarrow> bool" where
  "unread_like_notification recipient actor pid n =
     (notification_matches recipient actor LIKE (Some pid) n \<and> \<not> n_read n)"

text \<open>The world in which \<open>bob\<close> has liked the post and also follows \<open>alice\<close>.\<close>

definition demo_follow :: follows_row where
  "demo_follow = \<lparr>f_followerId = ''bob'', f_followingId = ''alice'', f_createdAt = 7\<rparr>"

definition followed_world :: world where
  "followed_world = liked_world\<lparr>db := (db liked_world)\<lparr>follows := [demo_follow]\<rparr>\<rparr>"

text \<open>A world with three posts, stored in an order that is not the order of their creation.\<close>

definition post_at :: "row_id \<Rightarrow> nat \<Rightarrow> post_row" where
  "post_at i t = \<lparr>p_id = i, p_content = hello, p_image = None, p_authorId = ''alice'', p_createdAt = t\<rparr>"

definition feed_world :: world where
  "feed_world = demo_world\<lparr>db := demo_db\<lparr>posts := [post_at 1 5, post_at 2 9, post_at 3 7], next_id := 4\<rparr>\<rparr>"

text \<open>The same world with a store that fails on its next call.\<close>

definition failing_world :: world where
  "failing_world = followed_world\<lparr>faults := [Some ''connection lost'']\<rparr>"

text \<open>A like button showing three likes, none of them the viewer's; a follow button at rest.\<close>

definition three_likes :: post_widget where
  "three_likes = \<lparr>isLiked = False, likeCount = 3, isDeleting = False\<rparr>"

definition not_following :: follow_widget where
  "not_following = \<lparr>isUserFollowing = False, isLoading = False, isSubmitting = False\<rparr>"

section \<open>Reasoning about server actions\<close>

lemmas io_defs = io_bind_def io_return_def io_throw_def io_catch_def rethrow_def
  console_error_def revalidatePath_def

lemmas query_defs = post_findUnique_def like_findUnique_def like_create_def like_delete_def
  notification_create_def notification_findFirst_def user_findUnique_def follows_findUnique_def
  follows_create_def follows_delete_def post_create_def post_delete_def post_findMany_def
  post_count_def comment_create_def comment_findUnique_def comment_delete_def
  notification_findUnique_def notification_update_read_def notification_count_unread_def
  has_user_def has_post_def foreign_key_error_def

lemmas demo_defs = demo_world_def demo_db_def demo_post_def demo_like_def demo_notification_def
  liked_world_def read_world_def unliked_world_def hello_def demo_follow_def followed_world_def

text \<open>The example worlds follow one another by the actions of the application.\<close>

lemma demo_like_run:
  "likePost (Some ''bob'') 1 demo_world = (Inr (SuccessTrue demo_like), liked_world)"
  by (simp add: demo_defs likePost_def likePost_body_def io_defs query_defs store_call_def
        reading_def like_has_key_def notification_matches_def Let_def)

lemma demo_mark_run:
  "markNotificationAsRead (Some ''alice'') 2 liked_world
     = (Inr (demo_notification\<lparr>n_read := True\<rparr>), read_world)"
  by (simp add: demo_defs markNotificationAsRead_def markNotificationAsRead_body_def io_defs
        query_defs store_call_def reading_def Let_def)

lemma demo_unlike_run:
  "unlikePost (Some ''bob'') 1 read_world = (Inr (SuccessTrue ''Post unliked''), unliked_world)"
  by (simp add: demo_defs unlikePost_def unlikePost_body_def io_defs query_defs store_call_def
        reading_def like_has_key_def Let_def)

lemma demo_follow_run:
  "followUser (Some ''bob'') ''alice'' liked_world
     = (Inr (SuccessTrue demo_follow),
        followed_world\<lparr>db := (db followed_world)
                          \<lparr>notifications := [demo_notification,
                              \<lparr>n_id = 3, n_userId = ''alice'', n_creatorId = ''bob'', n_type = FOLLOW,
                               n_postId = None, n_commentId = None, n_read = False, n_createdAt = 7\<rparr>],
                           next_id := 4\<rparr>,
                        revalidated := [Home, PostDetail 1, Profile ''al'', Explore, Home]\<rparr>)"
  by (simp add: demo_defs followUser_def followUser_body_def io_defs query_defs store_call_def
        reading_def follows_has_key_def Let_def)

text \<open>With an empty failure schedule a store call is the query itself.\<close>

lemma store_call_no_fault:
  "faults w = [] \<Longrightarrow>
     store_call q w = (case q (db w) of
                         Inl msg \<Rightarrow> (Inl msg, w\<lparr>raised := raised w @ [msg]\<rparr>)
                       | Inr (a, d) \<Rightarrow> (Inr a, w\<lparr>db := d\<rparr>))"
  by (cases w) (simp add: store_call_def Let_def split: sum.splits prod.splits)

text \<open>The three ways a store call can end.\<close>

lemma store_call_cases:
  assumes "store_call q w = (r, w')"
  obtains (fault) msg fs where "faults w = Some msg # fs" "r = Inl msg"
      "w' = w\<lparr>faults := fs, raised := raised w @ [msg]\<rparr>"
  | (query_error) msg where "q (db w) = Inl msg" "r = Inl msg"
      "w' = w\<lparr>faults := tl (faults w), raised := raised w @ [msg]\<rparr>"
  | (ok) a d where "q (db w) = Inr (a, d)" "r = Inr a" "w' = w\<lparr>faults := tl (faults w), db := d\<rparr>"
  using assms unfolding store_call_def
  by (auto simp: Let_def split: list.splits option.splits sum.splits prod.splits)

text \<open>A table with a uniqueness constraint on \<open>k\<close> loses at most one row to a delete by key.\<close>

lemma filter_key_at_most_one:
  "distinct (map k xs) \<Longrightarrow> length (filter (\<lambda>x. k x = a) xs) \<le> Suc 0"
  by (induction xs) (auto simp: filter_empty_conv image_iff)

lemma length_filter_out_key:
  assumes "distinct (map k xs)"
  shows "length xs \<le> Suc (length (filter (\<lambda>x. k x \<noteq> a) xs))"
proof -
  have "length xs = length (filter (\<lambda>x. k x = a) xs) + length (filter (\<lambda>x. \<not> k x = a) xs)"
    by (simp add: sum_length_filter_compl)
  with filter_key_at_most_one [OF assms, of a] show ?thesis by simp
qed

lemma like_has_key_iff: "like_has_key u pid l \<longleftrightarrow> like_key l = (u, pid)"
  by (auto simp: like_has_key_def like_key_def)

section \<open>Invariants of the tables\<close>

lemma keeps_return: "keeps I (io_return a)"
  by (simp add: keeps_def io_return_def)

lemma keeps_throw: "keeps I (io_throw e)"
  by (simp add: keeps_def io_throw_def)

lemma keeps_revalidate: "keeps I (revalidatePath p)"
  by (simp add: keeps_def revalidatePath_def)

lemma keeps_rethrow: "keeps I (rethrow l p e)"
  by (simp add: keeps_def rethrow_def io_bind_def console_error_def io_throw_def)

lemma keeps_bind:
  assumes "keeps I m" and "\<And>a. keeps I (f a)"
  shows "keeps I (io_bind m f)"
  unfolding keeps_def
proof (intro allI impI)
  fix w :: world
  assume inv: "I (db w)"
  obtain r w1 where run: "m w = (r, w1)" by (cases "m w")
  with assms(1) inv have one: "I (db w1)" by (auto simp: keeps_def)
  show "I (db (snd (io_bind m f w)))"
  proof (cases r)
    case (Inl e)
    with run one show ?thesis by (simp add: io_bind_def)
  next
    case (Inr a)
    with run have "io_bind m f w = f a w1" by (simp add: io_bind_def)
    with assms(2) [of a] one show ?thesis by (simp add: keeps_def)
  qed
qed

lemma keeps_catch:
  assumes "keeps I m" and "\<And>e. keeps I (h e)"
  shows "keeps I (io_catch m h)"
  unfolding keeps_def
proof (intro allI impI)
  fix w :: world
  assume inv: "I (db w)"
  obtain r w1 where run: "m w = (r, w1)" by (cases "m w")
  with assms(1) inv have one: "I (db w1)" by (auto simp: keeps_def)
  show "I (db (snd (io_catch m h w)))"
  proof (cases r)
    case (Inl e)
    with run have "io_catch m h w = h e w1" by (simp add: io_catch_def)
    with assms(2) [of e] one show ?thesis by (simp add: keeps_def)
  next
    case (Inr a)
    with run one show ?thesis by (simp add: io_catch_def)
  qed
qed

lemma keeps_store_call:
  assumes "\<And>d a d'. I d \<Longrightarrow> q d = Inr (a, d') \<Longrightarrow> I d'"
  shows "keeps I (store_call q)"
  unfolding keeps_def
proof (intro allI impI)
  fix w :: world
  assume inv: "I (db w)"
  obtain r w' where run: "store_call q w = (r, w')" by (cases "store_call q w")
  then show "I (db (snd (store_call q w)))"
  proof (cases rule: store_call_cases)
    case (ok a d)
    with run inv assms [of "db w" a d] show ?thesis by simp
  qed (simp_all add: run inv)
qed

lemmas keeps_rules = keeps_bind keeps_catch keeps_return keeps_throw keeps_revalidate keeps_rethrow
  keeps_store_call

text \<open>
  The two invariants that the theorems below assume of a database are kept by the
  actions that insert into the tables concerned, whatever the store does: no row of
  Follows joins a user to themselves, and no two rows of Like have the same key.
\<close>

lemma followUser_keeps_no_self_follow: "keeps no_self_follow (followUser session followingId)"
  unfolding followUser_def followUser_body_def query_defs
  by (auto intro!: keeps_rules simp: reading_def Let_def no_self_follow_def
        split: option.splits if_splits)

lemma keeps_reading: "keeps I (store_call (reading f))"
  by (rule keeps_store_call) (simp add: reading_def)

lemma keeps_notification_create:
  "keeps (\<lambda>d. distinct (map like_key (likes d))) (notification_create a u ty p c)"
  unfolding notification_create_def
  by (rule keeps_store_call) (auto simp: Let_def split: if_splits)

lemma keeps_like_create:
  "keeps (\<lambda>d. distinct (map like_key (likes d))) (like_create u pid)"
  unfolding like_create_def
proof (rule keeps_store_call, goal_cases)
  case (1 d l d')
  from 1(2) have none: "find (like_has_key u pid) (likes d) = None"
    and d': "d' = d\<lparr>likes := likes d @ [\<lparr>l_userId = u, l_postId = pid, l_createdAt = clock d\<rparr>]\<rparr>"
    by (auto simp: Let_def split: option.splits if_splits)
  from none have "(u, pid) \<notin> like_key ` set (likes d)"
    by (force simp: find_None_iff like_has_key_iff)
  with 1(1) show "distinct (map like_key (likes d'))"
    by (simp add: d' like_key_def)
qed

lemma likePost_keeps_like_keys_distinct:
  "keeps (\<lambda>d. distinct (map like_key (likes d))) (likePost session postId)"
  unfolding likePost_def likePost_body_def post_findUnique_def like_findUnique_def
    notification_findFirst_def
  by (auto intro!: keeps_rules keeps_reading keeps_like_create keeps_notification_create
        split: option.splits)

section \<open>Unlike keeps the notifications\<close>

text \<open>
  Claim C8. Whatever the store does, \<open>unlikePost\<close> leaves every Notification row and
  every table other than Like as it was. The Like table is either unchanged or has lost
  the rows with the key (caller, post), which is at most one row when the composite
  key is unique; after a successful unlike no Like row for (caller, post) is left.
  In the sequence like, mark as read, unlike of the example world the Like row is gone
  and the LIKE notification is still there, read, with its other fields as created.
\<close>

theorem unlikePost_frame:
  assumes "unlikePost session postId w = (r, w')"
  shows "notifications (db w') = notifications (db w)
       \<and> db w' = (db w)\<lparr>likes := likes (db w')\<rparr>
       \<and> (likes (db w') = likes (db w)
          \<or> (\<exists>u. authenticated session = Some u
                 \<and> likes (db w') = filter (\<lambda>l. \<not> like_has_key u postId l) (likes (db w))))
       \<and> (\<forall>m. r = Inr (SuccessTrue m) \<longrightarrow>
             (\<exists>u. authenticated session = Some u \<and> find (like_has_key u postId) (likes (db w')) = None))
       \<and> (distinct (map like_key (likes (db w))) \<longrightarrow> length (likes (db w)) \<le> Suc (length (likes (db w'))))"
proof -
  have main: "notifications (db w') = notifications (db w)
       \<and> db w' = (db w)\<lparr>likes := likes (db w')\<rparr>
       \<and> (likes (db w') = likes (db w) \<and> (\<forall>m. r \<noteq> Inr (SuccessTrue m))
          \<or> (\<exists>u. authenticated session = Some u
                 \<and> likes (db w') = filter (\<lambda>l. \<not> like_has_key u postId l) (likes (db w))))"
    using assms
    unfolding unlikePost_def unlikePost_body_def like_delete_def io_defs store_call_def
    by (auto simp: Let_def split: list.splits option.splits sum.splits prod.splits if_splits)
  have len: "length (likes (db w)) \<le> Suc (length (likes (db w')))"
    if "distinct (map like_key (likes (db w)))"
    using main length_filter_out_key [OF that] by (auto simp: like_has_key_iff)
  have gone: "\<exists>u. authenticated session = Some u \<and> find (like_has_key u postId) (likes (db w')) = None"
    if "r = Inr (SuccessTrue m)" for m
    using main that by (auto simp: find_None_iff)
  from main len gone show ?thesis by blast
qed

theorem unlikePost_frame_witness:
  "likePost (Some ''bob'') 1 demo_world = (Inr (SuccessTrue demo_like), liked_world)
 \<and> markNotificationAsRead (Some ''alice'') 2 liked_world = (Inr (demo_notification\<lparr>n_read := True\<rparr>), read_world)
 \<and> unlikePost (Some ''bob'') 1 read_world = (Inr (SuccessTrue ''Post unliked''), unliked_world)
 \<and> distinct (map like_key (likes (db read_world)))
 \<and> likes (db read_world) = [demo_like]
 \<and> likes (db unliked_world) = []
 \<and> find (like_has_key ''bob'' 1) (likes (db unliked_world)) = None
 \<and> notifications (db unliked_world) = notifications (db read_world)
 \<and> notifications (db unliked_world) = [demo_notification\<lparr>n_read := True\<rparr>]
 \<and> length (likes (db read_world)) \<le> Suc (length (likes (db unliked_world)))"
proof -
  have like: "likePost (Some ''bob'') 1 demo_world = (Inr (SuccessTrue demo_like), liked_world)"
    by (simp add: demo_defs likePost_def likePost_body_def io_defs query_defs store_call_def
          reading_def like_has_key_def notification_matches_def Let_def)
  have mark: "markNotificationAsRead (Some ''alice'') 2 liked_world
                = (Inr (demo_notification\<lparr>n_read := True\<rparr>), read_world)"
    by (simp add: demo_defs markNotificationAsRead_def markNotificationAsRead_body_def io_defs
          query_defs store_call_def reading_def Let_def)
  have unlike: "unlikePost (Some ''bob'') 1 read_world = (Inr (SuccessTrue ''Post unliked''), unliked_world)"
    by (simp add: demo_defs unlikePost_def unlikePost_body_def io_defs query_defs store_call_def
          reading_def like_has_key_def Let_def)
  have keys: "distinct (map like_key (likes (db read_world)))"
    by (simp add: demo_defs)
  from unlikePost_frame [OF unlike] keys like mark unlike show ?thesis
    by (simp add: demo_defs)
qed

section \<open>Marking a notification as read\<close>

lemma find_map_update:
  assumes "find P xs = Some n" and "\<And>x. P (g x) = P x"
  shows "find P (map (\<lambda>x. if P x then g x else x) xs) = Some (g n)"
  using assms by (induction xs) (auto split: if_splits)

lemma markNotificationAsRead_once:
  assumes "authenticated session = Some u"
      and "find (\<lambda>x. n_id x = nid) (notifications (db w)) = Some n"
      and "n_userId n = u"
      and "faults w = []"
  shows "markNotificationAsRead session nid w =
           (Inr (n\<lparr>n_read := True\<rparr>),
            w\<lparr>db := (db w)\<lparr>notifications :=
                    map (\<lambda>x. if n_id x = nid then x\<lparr>n_read := True\<rparr> else x) (notifications (db w))\<rparr>,
              revalidated := revalidated w @ [Notifications]\<rparr>)"
  using assms
  by (simp add: markNotificationAsRead_def markNotificationAsRead_body_def io_defs
        notification_findUnique_def notification_update_read_def store_call_no_fault reading_def)

text \<open>
  Claim C9. For a notification that exists and belongs to the authenticated caller,
  with a store that does not fail: the first call of \<open>markNotificationAsRead\<close> returns
  the notification with its read flag set and stores it so; a second call on the same
  notification returns the same row without an error, the read flag is still set, and
  the database is the one the first call left.
\<close>

theorem markNotificationAsRead_idempotent:
  assumes "authenticated session = Some u"
      and "find (\<lambda>x. n_id x = nid) (notifications (db w)) = Some n"
      and "n_userId n = u"
      and "faults w = []"
  shows "\<exists>w1 w2. markNotificationAsRead session nid w = (Inr (n\<lparr>n_read := True\<rparr>), w1)
        \<and> find (\<lambda>x. n_id x = nid) (notifications (db w1)) = Some (n\<lparr>n_read := True\<rparr>)
        \<and> markNotificationAsRead session nid w1 = (Inr (n\<lparr>n_read := True\<rparr>), w2)
        \<and> find (\<lambda>x. n_id x = nid) (notifications (db w2)) = Some (n\<lparr>n_read := True\<rparr>)
        \<and> db w2 = db w1"
proof -
  let ?upd = "\<lambda>x. if n_id x = nid then x\<lparr>n_read := True\<rparr> else x"
  let ?w1 = "w\<lparr>db := (db w)\<lparr>notifications := map ?upd (notifications (db w))\<rparr>,
               revalidated := revalidated w @ [Notifications]\<rparr>"
  let ?w2 = "?w1\<lparr>revalidated := revalidated ?w1 @ [Notifications]\<rparr>"
  have first: "markNotificationAsRead session nid w = (Inr (n\<lparr>n_read := True\<rparr>), ?w1)"
    using assms by (rule markNotificationAsRead_once)
  have found: "find (\<lambda>x. n_id x = nid) (notifications (db ?w1)) = Some (n\<lparr>n_read := True\<rparr>)"
    using find_map_update [OF assms(2), of "\<lambda>x. x\<lparr>n_read := True\<rparr>"] by simp
  have again: "map ?upd (map ?upd xs) = map ?upd xs" for xs
    by (induction xs) auto
  have "markNotificationAsRead session nid ?w1 =
          (Inr (n\<lparr>n_read := True, n_read := True\<rparr>),
           ?w1\<lparr>db := (db ?w1)\<lparr>notifications := map ?upd (notifications (db ?w1))\<rparr>,
               revalidated := revalidated ?w1 @ [Notifications]\<rparr>)"
    using assms(1) found assms(3,4) by (intro markNotificationAsRead_once) simp_all
  then have second: "markNotificationAsRead session nid ?w1 = (Inr (n\<lparr>n_read := True\<rparr>), ?w2)"
    by (simp add: again)
  have "find (\<lambda>x. n_id x = nid) (notifications (db ?w2)) = Some (n\<lparr>n_read := True\<rparr>)"
    using found by simp
  moreover have "db ?w2 = db ?w1" by simp
  ultimately show ?thesis using first found second by blast
qed

theorem markNotificationAsRead_idempotent_witness:
  "authenticated (Some ''alice'') = Some ''alice''
 \<and> find (\<lambda>x. n_id x = 2) (notifications (db liked_world)) = Some demo_notification
 \<and> n_userId demo_notification = ''alice''
 \<and> faults liked_world = []
 \<and> markNotificationAsRead (Some ''alice'') 2 liked_world = (Inr (demo_notification\<lparr>n_read := True\<rparr>), read_world)
 \<and> (\<exists>w2. markNotificationAsRead (Some ''alice'') 2 read_world = (Inr (demo_notification\<lparr>n_read := True\<rparr>), w2)
        \<and> db w2 = db read_world)"
proof -
  have a: "authenticated (Some ''alice'') = Some ''alice''" by simp
  have b: "find (\<lambda>x. n_id x = 2) (notifications (db liked_world)) = Some demo_notification"
    by (simp add: demo_defs)
  have c: "n_userId demo_notification = ''alice''" by (simp add: demo_defs)
  have d: "faults liked_world = []" by (simp add: demo_defs)
  have mark: "markNotificationAsRead (Some ''alice'') 2 liked_world
                = (Inr (demo_notification\<lparr>n_read := True\<rparr>), read_world)"
    by (simp add: demo_defs markNotificationAsRead_def markNotificationAsRead_body_def io_defs
          query_defs store_call_def reading_def Let_def)
  from markNotificationAsRead_idempotent [OF a b c d] mark a b c d show ?thesis
    by auto
qed

section \<open>Read predicates for signed-out callers\<close>

text \<open>
  Claim C10. For a caller without a session (no user id, or an empty one)
  \<open>hasUserLikedPost\<close> and \<open>isFollowing\<close> return \<open>false\<close> and
  \<open>getUnreadNotificationCount\<close> returns \<open>0\<close>, without touching the store. For any
  caller, when the store raises an error during the call the same defaults are
  returned; none of the three ever throws.
\<close>

theorem read_predicates_default:
  "(authenticated session = None \<longrightarrow>
       hasUserLikedPost session postId w = (Inr False, w)
     \<and> isFollowing session targetUserId w = (Inr False, w)
     \<and> getUnreadNotificationCount session w = (Inr 0, w))
 \<and> (raised (snd (hasUserLikedPost session postId w)) \<noteq> raised w \<longrightarrow>
       fst (hasUserLikedPost session postId w) = Inr False)
 \<and> (raised (snd (isFollowing session targetUserId w)) \<noteq> raised w \<longrightarrow>
       fst (isFollowing session targetUserId w) = Inr False)
 \<and> (raised (snd (getUnreadNotificationCount session w)) \<noteq> raised w \<longrightarrow>
       fst (getUnreadNotificationCount session w) = Inr 0)
 \<and> (\<exists>b. fst (hasUserLikedPost session postId w) = Inr b)
 \<and> (\<exists>b. fst (isFollowing session targetUserId w) = Inr b)
 \<and> (\<exists>k. fst (getUnreadNotificationCount session w) = Inr k)"
  unfolding hasUserLikedPost_def isFollowing_def getUnreadNotificationCount_def
    like_findUnique_def follows_findUnique_def notification_count_unread_def
    io_defs store_call_def reading_def
  by (auto simp: Let_def split: list.splits option.splits sum.splits prod.splits)

theorem read_predicates_default_witness:
  "authenticated None = None
 \<and> hasUserLikedPost None 1 liked_world = (Inr False, liked_world)
 \<and> isFollowing None ''alice'' liked_world = (Inr False, liked_world)
 \<and> getUnreadNotificationCount None liked_world = (Inr 0, liked_world)
 \<and> raised (snd (hasUserLikedPost (Some ''bob'') 1 (liked_world\<lparr>faults := [Some ''connection lost'']\<rparr>))) \<noteq> raised (liked_world\<lparr>faults := [Some ''connection lost'']\<rparr>)
 \<and> fst (hasUserLikedPost (Some ''bob'') 1 (liked_world\<lparr>faults := [Some ''connection lost'']\<rparr>)) = Inr False
 \<and> raised (snd (isFollowing (Some ''bob'') ''alice'' (liked_world\<lparr>faults := [Some ''connection lost'']\<rparr>))) \<noteq> raised (liked_world\<lparr>faults := [Some ''connection lost'']\<rparr>)
 \<and> fst (isFollowing (Some ''bob'') ''alice'' (liked_world\<lparr>faults := [Some ''connection lost'']\<rparr>)) = Inr False
 \<and> raised (snd (getUnreadNotificationCount (Some ''alice'') (liked_world\<lparr>faults := [Some ''connection lost'']\<rparr>))) \<noteq> raised (liked_world\<lparr>faults := [Some ''connection lost'']\<rparr>)
 \<and> fst (getUnreadNotificationCount (Some ''alice'') (liked_world\<lparr>faults := [Some ''connection lost'']\<rparr>)) = Inr 0
 \<and> fst (getUnreadNotificationCount (Some ''alice'') liked_world) = Inr 1"
proof -
  let ?f = "liked_world\<lparr>faults := [Some ''connection lost'']\<rparr>"
  have r1: "raised (snd (hasUserLikedPost (Some ''bob'') 1 ?f)) \<noteq> raised ?f"
    by (simp add: demo_defs hasUserLikedPost_def io_defs query_defs store_call_def)
  have r2: "raised (snd (isFollowing (Some ''bob'') ''alice'' ?f)) \<noteq> raised ?f"
    by (simp add: demo_defs isFollowing_def io_defs query_defs store_call_def)
  have r3: "raised (snd (getUnreadNotificationCount (Some ''alice'') ?f)) \<noteq> raised ?f"
    by (simp add: demo_defs getUnreadNotificationCount_def io_defs query_defs store_call_def)
  have c: "fst (getUnreadNotificationCount (Some ''alice'') liked_world) = Inr 1"
    by (simp add: demo_defs getUnreadNotificationCount_def io_defs query_defs store_call_def reading_def)
  have n: "authenticated None = None" by simp
  from read_predicates_default [of None 1 liked_world "''alice''"]
       read_predicates_default [of "Some ''bob''" 1 ?f "''alice''"]
       read_predicates_default [of "Some ''alice''" 1 ?f "''alice''"]
       r1 r2 r3 c n
  show ?thesis by simp
qed

section \<open>Duplicate requests are soft no-ops\<close>

text \<open>
  Claim C2. For an authenticated caller: \<open>likePost\<close> on an existing post the caller has
  already liked, and \<open>followUser\<close> on an existing user the caller already follows,
  return \<open>{success: false, message}\<close>, throw nothing and leave the world as it was
  (the store is taken not to fail, and the Follows table to hold no self-follow row).
  \<open>unlikePost\<close> on a post the caller has not liked and \<open>unfollowUser\<close> on a user the
  caller does not follow return \<open>{success: false, message}\<close> as well, with the
  database unchanged, whatever the store does.
\<close>

theorem duplicate_requests_are_noops:
  assumes "authenticated session = Some u"
  shows "(faults w = [] \<and> find (\<lambda>p. p_id p = postId) (posts (db w)) \<noteq> None
            \<and> find (like_has_key u postId) (likes (db w)) \<noteq> None \<longrightarrow>
          likePost session postId w = (Inr (SuccessFalse ''Post already liked''), w))
       \<and> (faults w = [] \<and> no_self_follow (db w)
            \<and> find (\<lambda>x. u_clerkId x = followingId) (users (db w)) \<noteq> None
            \<and> find (follows_has_key u followingId) (follows (db w)) \<noteq> None \<longrightarrow>
          followUser session followingId w = (Inr (SuccessFalse ''Already following user''), w))
       \<and> (find (like_has_key u postId) (likes (db w)) = None \<longrightarrow>
          fst (unlikePost session postId w) = Inr (SuccessFalse ''Post not liked'')
          \<and> db (snd (unlikePost session postId w)) = db w)
       \<and> (find (follows_has_key u followingId) (follows (db w)) = None \<longrightarrow>
          fst (unfollowUser session followingId w) = Inr (SuccessFalse ''Not following user'')
          \<and> db (snd (unfollowUser session followingId w)) = db w)"
proof -
  have like: "likePost session postId w = (Inr (SuccessFalse ''Post already liked''), w)"
    if "faults w = []" "find (\<lambda>p. p_id p = postId) (posts (db w)) \<noteq> None"
       "find (like_has_key u postId) (likes (db w)) \<noteq> None"
    using assms that
    by (auto simp: likePost_def likePost_body_def io_defs post_findUnique_def like_findUnique_def
          store_call_no_fault reading_def)
  have neq: "u \<noteq> followingId"
    if "no_self_follow (db w)" "find (follows_has_key u followingId) (follows (db w)) \<noteq> None"
  proof -
    from that(2) obtain f where "find (follows_has_key u followingId) (follows (db w)) = Some f"
      by auto
    then have "f \<in> set (follows (db w))" "follows_has_key u followingId f"
      by (auto simp: find_Some_iff)
    with that(1) show ?thesis
      by (auto simp: no_self_follow_def list_all_iff follows_has_key_def)
  qed
  have follow: "followUser session followingId w = (Inr (SuccessFalse ''Already following user''), w)"
    if "faults w = []" "no_self_follow (db w)"
       "find (\<lambda>x. u_clerkId x = followingId) (users (db w)) \<noteq> None"
       "find (follows_has_key u followingId) (follows (db w)) \<noteq> None"
    using assms that neq [OF that(2,4)]
    by (auto simp: followUser_def followUser_body_def io_defs user_findUnique_def follows_findUnique_def
          store_call_no_fault reading_def)
  have unlike: "fst (unlikePost session postId w) = Inr (SuccessFalse ''Post not liked'')
          \<and> db (snd (unlikePost session postId w)) = db w"
    if "find (like_has_key u postId) (likes (db w)) = None"
    using assms that
    unfolding unlikePost_def unlikePost_body_def like_delete_def io_defs store_call_def
    by (auto simp: Let_def split: list.splits option.splits)
  have unfollow: "fst (unfollowUser session followingId w) = Inr (SuccessFalse ''Not following user'')
          \<and> db (snd (unfollowUser session followingId w)) = db w"
    if "find (follows_has_key u followingId) (follows (db w)) = None"
    using assms that
    unfolding unfollowUser_def unfollowUser_body_def follows_delete_def io_defs store_call_def
    by (auto simp: Let_def split: list.splits option.splits)
  from like follow unlike unfollow show ?thesis by blast
qed

theorem duplicate_requests_are_noops_witness:
  "authenticated (Some ''bob'') = Some ''bob''
 \<and> faults followed_world = [] \<and> no_self_follow (db followed_world)
 \<and> find (\<lambda>p. p_id p = 1) (posts (db followed_world)) \<noteq> None
 \<and> find (like_has_key ''bob'' 1) (likes (db followed_world)) \<noteq> None
 \<and> find (\<lambda>x. u_clerkId x = ''alice'') (users (db followed_world)) \<noteq> None
 \<and> find (follows_has_key ''bob'' ''alice'') (follows (db followed_world)) \<noteq> None
 \<and> likePost (Some ''bob'') 1 followed_world = (Inr (SuccessFalse ''Post already liked''), followed_world)
 \<and> followUser (Some ''bob'') ''alice'' followed_world
      = (Inr (SuccessFalse ''Already following user''), followed_world)
 \<and> find (like_has_key ''bob'' 1) (likes (db demo_world)) = None
 \<and> find (follows_has_key ''bob'' ''alice'') (follows (db demo_world)) = None
 \<and> fst (unlikePost (Some ''bob'') 1 demo_world) = Inr (SuccessFalse ''Post not liked'')
 \<and> db (snd (unlikePost (Some ''bob'') 1 demo_world)) = db demo_world
 \<and> fst (unfollowUser (Some ''bob'') ''alice'' demo_world) = Inr (SuccessFalse ''Not following user'')
 \<and> db (snd (unfollowUser (Some ''bob'') ''alice'' demo_world)) = db demo_world"
proof -
  have a: "authenticated (Some ''bob'') = Some ''bob''" by simp
  have pre: "faults followed_world = [] \<and> no_self_follow (db followed_world)
     \<and> find (\<lambda>p. p_id p = 1) (posts (db followed_world)) \<noteq> None
     \<and> find (like_has_key ''bob'' 1) (likes (db followed_world)) \<noteq> None
     \<and> find (\<lambda>x. u_clerkId x = ''alice'') (users (db followed_world)) \<noteq> None
     \<and> find (follows_has_key ''bob'' ''alice'') (follows (db followed_world)) \<noteq> None"
    by (simp add: demo_defs no_self_follow_def like_has_key_def follows_has_key_def)
  have pre': "find (like_has_key ''bob'' 1) (likes (db demo_world)) = None
     \<and> find (follows_has_key ''bob'' ''alice'') (follows (db demo_world)) = None"
    by (simp add: demo_defs)
  from duplicate_requests_are_noops [OF a, of followed_world 1 "''alice''"]
       duplicate_requests_are_noops [OF a, of demo_world 1 "''alice''"]
       a pre pre'
  show ?thesis by simp
qed

section \<open>Notification fan-out of a like\<close>

lemma find_hit: "x \<in> set xs \<Longrightarrow> P x \<Longrightarrow> find P xs \<noteq> None"
  by (auto simp: find_None_iff)

lemma likePost_fresh:
  assumes "authenticated session = Some u"
    and "has_user (db w) u"
    and "find (\<lambda>p. p_id p = pid) (posts (db w)) = Some p"
    and "has_user (db w) (p_authorId p)"
    and "find (like_has_key u pid) (likes (db w)) = None"
    and "faults w = []"
  shows "fst (likePost session pid w) = Inr (SuccessTrue \<lparr>l_userId = u, l_postId = pid, l_createdAt = clock (db w)\<rparr>)"
    and "notifications (db (snd (likePost session pid w))) =
          (if p_authorId p = u \<or> find (notification_matches (p_authorId p) u LIKE (Some pid)) (notifications (db w)) \<noteq> None
           then notifications (db w)
           else notifications (db w) @ [like_notification (db w) (p_authorId p) u pid])"
    and "likes (db (snd (likePost session pid w))) = likes (db w) @ [\<lparr>l_userId = u, l_postId = pid, l_createdAt = clock (db w)\<rparr>]"
    and "faults (snd (likePost session pid w)) = []"
    and "posts (db (snd (likePost session pid w))) = posts (db w)"
    and "users (db (snd (likePost session pid w))) = users (db w)"
  using assms
  by (auto simp: likePost_def likePost_body_def io_defs query_defs store_call_no_fault reading_def Let_def
        like_notification_def split: option.splits)

lemma unlikePost_liked:
  assumes "authenticated session = Some u"
    and "find (like_has_key u pid) (likes (db w)) \<noteq> None"
    and "faults w = []"
  shows "fst (unlikePost session pid w) = Inr (SuccessTrue ''Post unliked'')"
    and "notifications (db (snd (unlikePost session pid w))) = notifications (db w)"
    and "likes (db (snd (unlikePost session pid w))) = filter (\<lambda>l. \<not> like_has_key u pid l) (likes (db w))"
    and "faults (snd (unlikePost session pid w)) = []"
    and "posts (db (snd (unlikePost session pid w))) = posts (db w)"
    and "users (db (snd (unlikePost session pid w))) = users (db w)"
  using assms
  by (auto simp: unlikePost_def unlikePost_body_def io_defs query_defs store_call_no_fault Let_def
        split: option.splits)

text \<open>
  Claim C1, as the code has it. An authenticated user \<open>u\<close> likes an existing post
  \<open>p\<close> that \<open>u\<close> has not liked; \<open>u\<close> and the author of the post have their User
  rows, as the foreign keys of Like and Notification demand, and the store does not
  fail. The like succeeds. If
  \<open>u\<close> wrote the post, no Notification row is inserted. Otherwise exactly one unread
  LIKE row (recipient the author, actor \<open>u\<close>, post \<open>p\<close>) is inserted, unless a LIKE
  notification for the same recipient, actor and post exists already, read or unread,
  in which case none is inserted. When \<open>u\<close> then unlikes and likes again, the second
  like inserts no Notification row.
\<close>

theorem likePost_notification_fanout:
  assumes "authenticated session = Some u"
    and "has_user (db w) u"
    and "find (\<lambda>p. p_id p = pid) (posts (db w)) = Some p"
    and "has_user (db w) (p_authorId p)"
    and "find (like_has_key u pid) (likes (db w)) = None"
    and "faults w = []"
  shows "\<exists>l w1 m w2 l' w3.
           likePost session pid w = (Inr (SuccessTrue l), w1)
         \<and> notifications (db w1) =
             (if p_authorId p = u
                 \<or> find (notification_matches (p_authorId p) u LIKE (Some pid)) (notifications (db w)) \<noteq> None
              then notifications (db w)
              else notifications (db w) @ [like_notification (db w) (p_authorId p) u pid])
         \<and> unlikePost session pid w1 = (Inr (SuccessTrue m), w2)
         \<and> likePost session pid w2 = (Inr (SuccessTrue l'), w3)
         \<and> notifications (db w3) = notifications (db w1)"
proof -
  let ?a = "p_authorId p"
  let ?w1 = "snd (likePost session pid w)"
  let ?w2 = "snd (unlikePost session pid ?w1)"
  let ?w3 = "snd (likePost session pid ?w2)"
  note first = likePost_fresh [OF assms]
  have liked: "find (like_has_key u pid) (likes (db ?w1)) \<noteq> None"
    by (rule find_hit [of "\<lparr>l_userId = u, l_postId = pid, l_createdAt = clock (db w)\<rparr>"])
       (simp_all add: first(3) like_has_key_def)
  note undone = unlikePost_liked [OF assms(1) liked first(4)]
  have post2: "find (\<lambda>p. p_id p = pid) (posts (db ?w2)) = Some p"
    by (simp add: undone(5) first(5) assms(3))
  have rows2: "has_user (db ?w2) u" "has_user (db ?w2) ?a"
    using assms(2,4) by (simp_all add: has_user_def undone(6) first(6))
  have unliked: "find (like_has_key u pid) (likes (db ?w2)) = None"
    by (simp add: undone(3) find_None_iff)
  note second = likePost_fresh [OF assms(1) rows2(1) post2 rows2(2) unliked undone(4)]
  have known: "find (notification_matches ?a u LIKE (Some pid)) (notifications (db ?w1)) \<noteq> None"
    if "?a \<noteq> u"
  proof (cases "find (notification_matches ?a u LIKE (Some pid)) (notifications (db w)) = None")
    case True
    show ?thesis
      by (rule find_hit [of "like_notification (db w) ?a u pid"])
         (simp_all add: first(2) True that notification_matches_def like_notification_def)
  next
    case False
    then show ?thesis by (simp add: first(2))
  qed
  have same: "notifications (db ?w3) = notifications (db ?w1)"
    using known by (auto simp: second(2) undone(2))
  have "likePost session pid w = (fst (likePost session pid w), ?w1)"
       "unlikePost session pid ?w1 = (fst (unlikePost session pid ?w1), ?w2)"
       "likePost session pid ?w2 = (fst (likePost session pid ?w2), ?w3)"
    by simp_all
  with first(1,2) undone(1) second(1) same show ?thesis
    by metis
qed

theorem likePost_notification_fanout_witness:
  "authenticated (Some ''bob'') = Some ''bob''
 \<and> has_user (db demo_world) ''bob''
 \<and> find (\<lambda>p. p_id p = 1) (posts (db demo_world)) = Some demo_post
 \<and> has_user (db demo_world) (p_authorId demo_post)
 \<and> find (like_has_key ''bob'' 1) (likes (db demo_world)) = None
 \<and> faults demo_world = []
 \<and> (\<exists>l w1 m w2 l' w3.
       likePost (Some ''bob'') 1 demo_world = (Inr (SuccessTrue l), w1)
     \<and> notifications (db w1) = [demo_notification]
     \<and> unlikePost (Some ''bob'') 1 w1 = (Inr (SuccessTrue m), w2)
     \<and> likePost (Some ''bob'') 1 w2 = (Inr (SuccessTrue l'), w3)
     \<and> notifications (db w3) = [demo_notification])"
proof -
  have a: "authenticated (Some ''bob'') = Some ''bob''" by simp
  have b: "find (\<lambda>p. p_id p = 1) (posts (db demo_world)) = Some demo_post"
    by (simp add: demo_defs)
  have c: "find (like_has_key ''bob'' 1) (likes (db demo_world)) = None"
    by (simp add: demo_defs)
  have d: "faults demo_world = []" by (simp add: demo_defs)
  have rows: "has_user (db demo_world) ''bob''" "has_user (db demo_world) (p_authorId demo_post)"
    by (simp_all add: demo_defs has_user_def)
  have e: "(if p_authorId demo_post = ''bob''
               \<or> find (notification_matches (p_authorId demo_post) ''bob'' LIKE (Some 1))
                    (notifications (db demo_world)) \<noteq> None
            then notifications (db demo_world)
            else notifications (db demo_world)
                   @ [like_notification (db demo_world) (p_authorId demo_post) ''bob'' 1])
           = [demo_notification]"
    by (simp add: demo_defs like_notification_def)
  from likePost_notification_fanout [OF a rows(1) b rows(2) c d] show ?thesis
    unfolding e using a b c d rows by auto
qed

text \<open>
  The claim as the specification words it skips the insert only for an equivalent
  \<^emph>\<open>unread\<close> notification. In the world reached by like, mark as read, unlike there is
  no unread LIKE notification from \<open>bob\<close> to \<open>alice\<close> for the post and \<open>bob\<close> has no
  like on it, both have their User rows, yet the next like by \<open>bob\<close> succeeds and
  inserts no Notification row.
\<close>

theorem likePost_read_notification_counterexample:
  "authenticated (Some ''bob'') = Some ''bob''
 \<and> has_user (db unliked_world) ''bob''
 \<and> has_user (db unliked_world) ''alice''
 \<and> posts (db unliked_world) = [demo_post]
 \<and> p_id demo_post = 1
 \<and> p_authorId demo_post = ''alice''
 \<and> likes (db unliked_world) = []
 \<and> faults unliked_world = []
 \<and> filter (unread_like_notification ''alice'' ''bob'' 1) (notifications (db unliked_world)) = []
 \<and> fst (likePost (Some ''bob'') 1 unliked_world) = Inr (SuccessTrue demo_like)
 \<and> notifications (db (snd (likePost (Some ''bob'') 1 unliked_world))) = notifications (db unliked_world)"
  by (simp add: demo_defs likePost_def likePost_body_def io_defs query_defs store_call_def
        reading_def like_has_key_def notification_matches_def unread_like_notification_def Let_def)

section \<open>The feed\<close>

lemma newest_first_descending:
  "sorted_wrt (\<lambda>a b. p_createdAt b \<le> p_createdAt a) (newest_first ps)"
proof -
  have "sorted (map p_createdAt (sort_key p_createdAt ps))"
    by (rule sorted_sort_key)
  then have "sorted_wrt (\<lambda>a b. p_createdAt a \<le> p_createdAt b) (sort_key p_createdAt ps)"
    by (simp add: sorted_wrt_map)
  then show ?thesis
    by (simp add: newest_first_def sorted_wrt_rev)
qed

lemma newest_first_perm: "mset (newest_first ps) = mset ps"
  by (simp add: newest_first_def)

text \<open>The arithmetic of JavaScript is exact on integers up to \<open>2^53\<close>.\<close>

lemma js_number_exact: "\<bar>x\<bar> \<le> 2 ^ 53 \<Longrightarrow> js_number x = x"
  by (auto simp: js_number_def Let_def nat_le_iff)

lemma js_mul_zero: "js_mul x 0 = 0"
  by (simp add: js_mul_def js_number_exact)

lemma safe_page_arithmetic:
  assumes "1 \<le> page" and "0 \<le> limit" and "page * limit < 2 ^ 53"
  shows "js_mul (js_sub page 1) limit = (page - 1) * limit"
    and "js_add ((page - 1) * limit) limit = page * limit"
    and "0 \<le> (page - 1) * limit"
    and "(page - 1) * limit < 2 ^ 53"
    and "limit < 2 ^ 53"
proof -
  have le: "(page - 1) * limit \<le> page * limit"
    using assms(1,2) by (intro mult_right_mono) simp_all
  show off: "0 \<le> (page - 1) * limit" using assms(1,2) by simp
  show small: "(page - 1) * limit < 2 ^ 53" using le assms(3) by simp
  have "limit = 1 * limit" by simp
  also have "\<dots> \<le> page * limit" using assms(1,2) by (intro mult_right_mono) simp_all
  finally show "limit < 2 ^ 53" using assms(3) by simp
  show "js_mul (js_sub page 1) limit = (page - 1) * limit"
  proof (cases "limit = 0")
    case True
    then show ?thesis by (simp add: js_mul_zero)
  next
    case False
    with assms(2) have "1 \<le> limit" by simp
    then have "page * 1 \<le> page * limit" using assms(1) by (intro mult_left_mono) simp_all
    with assms(3) have "page < 2 ^ 53" by simp
    then have "js_sub page 1 = page - 1"
      unfolding js_sub_def using assms(1) by (intro js_number_exact) simp
    then show ?thesis
      unfolding js_mul_def using off small by (simp add: js_number_exact)
  qed
  have "(page - 1) * limit + limit = page * limit" by (simp add: algebra_simps)
  then show "js_add ((page - 1) * limit) limit = page * limit"
    unfolding js_add_def using assms(1,2,3) by (simp add: js_number_exact)
qed

lemma post_findMany_page:
  assumes "0 \<le> tk" "tk < 2 ^ 53" "0 \<le> sk" "sk < 2 ^ 53" "faults w = []"
  shows "post_findMany tk sk w =
           (Inr (map (with_counts (db w)) (take (nat tk) (drop (nat sk) (newest_first (posts (db w)))))), w)"
  using assms by (simp add: post_findMany_def int64_def store_call_no_fault Let_def)

text \<open>
  Claim C4, as the code has it. \<open>page\<close> and \<open>limit\<close> are integers that a
  JavaScript number holds, with \<open>page \<ge> 1\<close>, \<open>limit \<ge> 0\<close> and
  \<open>page * limit < 2^53\<close>, so that the arithmetic of JavaScript is exact on them and
  \<^verbatim>\<open>skip\<close> and \<^verbatim>\<open>take\<close> lie in the range the client of the store accepts; the
  store does not fail. Then
  \<open>getFeedPosts page limit\<close> returns at most \<open>limit\<close> posts: those that follow the
  first \<open>(page - 1) * limit\<close> posts in the ordering of all posts by creation time,
  newest first. It returns with them the number of all posts, the page and the limit,
  and \<open>hasMore\<close> is true exactly when \<open>page * limit < total\<close>.
\<close>

theorem getFeedPosts_page:
  assumes "1 \<le> page" and "0 \<le> limit" and "js_number page = page"
    and "page * limit < 2 ^ 53" and "faults w = []"
  shows "\<exists>f. getFeedPosts page limit w = (Inr f, w)
     \<and> length (feed_posts f) \<le> nat limit
     \<and> map fp_post (feed_posts f)
         = take (nat limit) (drop (nat ((page - 1) * limit)) (newest_first (posts (db w))))
     \<and> sorted_wrt (\<lambda>a b. p_createdAt b \<le> p_createdAt a) (newest_first (posts (db w)))
     \<and> mset (newest_first (posts (db w))) = mset (posts (db w))
     \<and> sorted_wrt (\<lambda>a b. p_createdAt b \<le> p_createdAt a) (map fp_post (feed_posts f))
     \<and> feed_total f = int (length (posts (db w)))
     \<and> feed_page f = page
     \<and> feed_limit f = limit
     \<and> (feed_hasMore f \<longleftrightarrow> page * limit < feed_total f)"
proof -
  let ?offset = "(page - 1) * limit"
  let ?rows = "take (nat limit) (drop (nat ?offset) (newest_first (posts (db w))))"
  let ?f = "\<lparr>feed_posts = map (with_counts (db w)) ?rows, feed_total = int (length (posts (db w))),
             feed_page = page, feed_limit = limit,
             feed_hasMore = (page * limit < int (length (posts (db w))))\<rparr>"
  note exact = safe_page_arithmetic [OF assms(1,2,4)]
  have run: "getFeedPosts page limit w = (Inr ?f, w)"
    using assms(5)
    by (simp add: getFeedPosts_def io_defs Let_def exact(1,2)
          post_findMany_page [OF assms(2) exact(5) exact(3) exact(4) assms(5)]
          post_count_def store_call_no_fault reading_def)
  have proj: "map fp_post (feed_posts ?f) = ?rows"
    by (simp add: with_counts_def comp_def)
  have desc: "sorted_wrt (\<lambda>a b. p_createdAt b \<le> p_createdAt a) ?rows"
    by (intro sorted_wrt_take sorted_wrt_drop newest_first_descending)
  have "length (feed_posts ?f) \<le> nat limit" by simp
  with run proj desc newest_first_descending newest_first_perm show ?thesis
    by (intro exI [of _ ?f]) (simp only: simp_thms feed.simps)
qed

theorem getFeedPosts_page_witness:
  "1 \<le> (2::int) \<and> 0 \<le> (1::int) \<and> js_number 2 = 2 \<and> (2::int) * 1 < 2 ^ 53
 \<and> faults feed_world = []
 \<and> (\<exists>f. getFeedPosts 2 1 feed_world = (Inr f, feed_world)
        \<and> map fp_post (feed_posts f) = [post_at 3 7]
        \<and> newest_first (posts (db feed_world)) = [post_at 2 9, post_at 3 7, post_at 1 5]
        \<and> feed_total f = 3 \<and> feed_page f = 2 \<and> feed_limit f = 1 \<and> feed_hasMore f)"
proof -
  have a: "1 \<le> (2::int)" and b: "0 \<le> (1::int)" and b'': "(2::int) * 1 < 2 ^ 53"
    by simp_all
  have b': "js_number 2 = 2"
    by (simp add: js_number_exact)
  have c: "faults feed_world = []" by (simp add: feed_world_def demo_defs)
  have d: "newest_first (posts (db feed_world)) = [post_at 2 9, post_at 3 7, post_at 1 5]"
    by (simp add: feed_world_def demo_world_def demo_db_def newest_first_def post_at_def)
  have e: "length (posts (db feed_world)) = 3"
    by (simp add: feed_world_def demo_world_def demo_db_def)
  from getFeedPosts_page [OF a b b' b'' c] show ?thesis
    unfolding d e using c b' by auto
qed

text \<open>
  Without the bound the claim fails. For \<open>page = 2^32 + 1\<close> and \<open>limit = 2^32\<close>, both
  of which a JavaScript number holds exactly, the offset is \<open>2^64\<close>, which does not fit
  a signed 64-bit integer: the client rejects the query and \<open>getFeedPosts\<close> throws.
\<close>

theorem getFeedPosts_out_of_range_counterexample:
  "(1::int) \<le> 4294967297
 \<and> (0::int) \<le> 4294967296
 \<and> js_number 4294967297 = 4294967297
 \<and> js_number 4294967296 = 4294967296
 \<and> faults demo_world = []
 \<and> js_mul (js_sub 4294967297 1) 4294967296 = 18446744073709551616
 \<and> \<not> int64 18446744073709551616
 \<and> getFeedPosts 4294967297 4294967296 demo_world
      = (Inl (''Failed to fetch feed: '' @ out_of_range_error),
         demo_world\<lparr>raised := [out_of_range_error],
                    console := [''Error fetching feed: '' @ out_of_range_error]\<rparr>)"
proof -
  have bits: "bit_length 18446744073709551616 = 65"
    by (simp add: bit_length.simps)
  have sub: "js_sub 4294967297 1 = 4294967296"
    by (simp add: js_sub_def js_number_exact)
  have mul: "js_mul 4294967296 4294967296 = 18446744073709551616"
    by (simp add: js_mul_def js_number_def Let_def bits)
  have big: "\<not> int64 18446744073709551616"
    by (simp add: int64_def)
  have "getFeedPosts 4294967297 4294967296 demo_world
      = (Inl (''Failed to fetch feed: '' @ out_of_range_error),
         demo_world\<lparr>raised := [out_of_range_error],
                    console := [''Error fetching feed: '' @ out_of_range_error]\<rparr>)"
    unfolding getFeedPosts_def sub mul
    using big by (simp add: io_defs post_findMany_def store_call_def demo_world_def Let_def)
  with sub mul big show ?thesis by (simp add: demo_world_def js_number_exact)
qed

section \<open>Post content\<close>

lemma trim_empty_iff: "trim s = [] \<longleftrightarrow> (\<forall>c\<in>set s. js_whitespace c)"
proof -
  have "trim s = [] \<longleftrightarrow> (\<forall>c\<in>set (dropWhile js_whitespace s). js_whitespace c)"
    by (simp add: trim_def)
  also have "\<dots> \<longleftrightarrow> dropWhile js_whitespace s = []"
  proof
    assume all: "\<forall>c\<in>set (dropWhile js_whitespace s). js_whitespace c"
    show "dropWhile js_whitespace s = []"
    proof (rule ccontr)
      assume ne: "dropWhile js_whitespace s \<noteq> []"
      then have "\<not> js_whitespace (hd (dropWhile js_whitespace s))"
        by (rule hd_dropWhile)
      moreover have "hd (dropWhile js_whitespace s) \<in> set (dropWhile js_whitespace s)"
        using ne by simp
      ultimately show False using all by blast
    qed
  next
    assume none: "dropWhile js_whitespace s = []"
    show "\<forall>c\<in>set (dropWhile js_whitespace s). js_whitespace c"
      unfolding none by simp
  qed
  also have "\<dots> \<longleftrightarrow> (\<forall>c\<in>set s. js_whitespace c)"
    by simp
  finally show ?thesis .
qed

lemma length_trim: "length (trim s) \<le> length s"
proof -
  have "length (trim s) \<le> length (dropWhile js_whitespace s)"
    unfolding trim_def length_rev
    using length_dropWhile_le [of js_whitespace "rev (dropWhile js_whitespace s)"] by simp
  also have "\<dots> \<le> length s" by (rule length_dropWhile_le)
  finally show ?thesis .
qed

text \<open>
  Claim C5. For an authenticated user whom the identity provider knows,
  \<open>createPost\<close> fails with a validation error, and writes nothing, when the content
  is empty or consists of white space only, or is longer than 280 code units. Whatever
  the input and whatever the store does, \<open>createPost\<close> adds at most one Post row, and
  the content of a row it adds is the trimmed input, is not empty and is at most 280
  code units long.
\<close>

theorem createPost_content_bounds:
  "(authenticated session = Some u \<and> current \<noteq> None
      \<and> ((\<forall>c\<in>set content. js_whitespace c) \<or> 280 < length content) \<longrightarrow>
      fst (createPost session current content imageUrl w)
        \<in> {Inl ''Failed to create post: Post content cannot be empty'',
           Inl ''Failed to create post: Post must be 280 characters or less''}
      \<and> db (snd (createPost session current content imageUrl w)) = db w)
 \<and> (posts (db (snd (createPost session current content imageUrl w))) = posts (db w)
      \<or> (\<exists>p. posts (db (snd (createPost session current content imageUrl w))) = posts (db w) @ [p]
              \<and> p_content p = trim content
              \<and> p_content p \<noteq> []
              \<and> length (p_content p) \<le> 280))"
proof -
  let ?run = "createPost session current content imageUrl w"
  have reject: "fst ?run \<in> {Inl ''Failed to create post: Post content cannot be empty'',
                             Inl ''Failed to create post: Post must be 280 characters or less''}
                \<and> db (snd ?run) = db w"
    if "authenticated session = Some u" "current \<noteq> None"
       "(\<forall>c\<in>set content. js_whitespace c) \<or> 280 < length content"
    using that
    by (auto simp: createPost_def createPost_body_def io_defs trim_empty_iff)
  have rows: "posts (db (snd ?run)) = posts (db w)
      \<or> (\<exists>p. posts (db (snd ?run)) = posts (db w) @ [p]
              \<and> p_content p = trim content \<and> p_content p \<noteq> [] \<and> length (p_content p) \<le> 280)"
  proof (cases "trim content = [] \<or> 280 < length content")
    case True
    then have "posts (db (snd ?run)) = posts (db w)"
      by (auto simp: createPost_def createPost_body_def io_defs split: option.splits)
    then show ?thesis ..
  next
    case False
    then have ok: "trim content \<noteq> []" "length (trim content) \<le> 280"
      using length_trim [of content] by auto
    show ?thesis
      using False ok
      unfolding createPost_def createPost_body_def io_defs post_create_def store_call_def
      by (auto simp: Let_def split: option.splits list.splits)
  qed
  from reject rows show ?thesis by blast
qed

theorem createPost_content_bounds_witness:
  "authenticated (Some ''alice'') = Some ''alice''
 \<and> Some () \<noteq> None
 \<and> list_all js_whitespace [0x20, 0x0A]
 \<and> fst (createPost (Some ''alice'') (Some ()) [0x20, 0x0A] None demo_world)
      = Inl ''Failed to create post: Post content cannot be empty''
 \<and> 280 < length (replicate 281 (0x61 :: 16 word))
 \<and> fst (createPost (Some ''alice'') (Some ()) (replicate 281 0x61) None demo_world)
      = Inl ''Failed to create post: Post must be 280 characters or less''
 \<and> posts (db (snd (createPost (Some ''alice'') (Some ()) (0x20 # hello @ [0x20]) None demo_world)))
      = posts (db demo_world) @ [post_at 2 7]
 \<and> p_content (post_at 2 7) = trim (0x20 # hello @ [0x20])
 \<and> p_content (post_at 2 7) \<noteq> [] \<and> length (p_content (post_at 2 7)) \<le> 280"
proof -
  have a: "authenticated (Some ''alice'') = Some ''alice''" by simp
  have blank: "\<forall>c\<in>set [0x20, 0x0A]. js_whitespace c"
    by (simp add: js_whitespace_def)
  have long: "280 < length (replicate 281 (0x61 :: 16 word))" by simp
  have solid: "\<not> js_whitespace 0x61"
    by (simp add: js_whitespace_def)
  have long': "trim (replicate 281 (0x61 :: 16 word)) \<noteq> []"
    using solid by (simp add: trim_empty_iff)
  have r1: "fst (createPost (Some ''alice'') (Some ()) [0x20, 0x0A] None demo_world)
              = Inl ''Failed to create post: Post content cannot be empty''"
    using blank by (simp add: createPost_def createPost_body_def io_defs trim_empty_iff)
  have r2: "fst (createPost (Some ''alice'') (Some ()) (replicate 281 0x61) None demo_world)
              = Inl ''Failed to create post: Post must be 280 characters or less''"
    using long' by (simp add: createPost_def createPost_body_def io_defs)
  have t: "trim (0x20 # hello @ [0x20]) = hello"
    by (simp add: trim_def hello_def js_whitespace_def)
  have r3: "posts (db (snd (createPost (Some ''alice'') (Some ()) (0x20 # hello @ [0x20]) None demo_world)))
              = posts (db demo_world) @ [post_at 2 7]"
    unfolding createPost_def createPost_body_def t
    by (simp add: io_defs post_create_def has_user_def store_call_def demo_defs post_at_def Let_def)
  from createPost_content_bounds [of "Some ''alice''" "''alice''" "Some ()" "[0x20, 0x0A]" None demo_world]
       createPost_content_bounds [of "Some ''alice''" "''alice''" "Some ()" "replicate 281 0x61" None demo_world]
       createPost_content_bounds [of "Some ''alice''" "''alice''" "Some ()" "0x20 # hello @ [0x20]" None demo_world]
       a blank long r1 r2 r3 t
  show ?thesis by (simp add: post_at_def hello_def list_all_iff)
qed

section \<open>No notification to oneself\<close>

text \<open>
  The rules below carry \<open>adds_genuine\<close> through the building blocks of a server
  action, for any behaviour of the store.
\<close>

lemma adds_genuine_iff:
  "adds_genuine d d' \<longleftrightarrow> (\<exists>ns. notifications d' = notifications d @ ns \<and> list_all genuine ns)"
proof
  assume "adds_genuine d d'"
  then have eq: "take (length (notifications d)) (notifications d') = notifications d"
    and rest: "list_all genuine (drop (length (notifications d)) (notifications d'))"
    by (simp_all add: adds_genuine_def)
  have "notifications d' = notifications d @ drop (length (notifications d)) (notifications d')"
    using append_take_drop_id [of "length (notifications d)" "notifications d'"] eq by simp
  with rest show "\<exists>ns. notifications d' = notifications d @ ns \<and> list_all genuine ns" by blast
next
  assume "\<exists>ns. notifications d' = notifications d @ ns \<and> list_all genuine ns"
  then show "adds_genuine d d'" by (auto simp: adds_genuine_def)
qed

lemma adds_genuine_same: "notifications d' = notifications d \<Longrightarrow> adds_genuine d d'"
  by (simp add: adds_genuine_def)

lemma adds_genuine_trans: "adds_genuine d d' \<Longrightarrow> adds_genuine d' d'' \<Longrightarrow> adds_genuine d d''"
  by (auto simp: adds_genuine_iff)

lemma genuine_return: "adds_genuine (db w) (db (snd (io_return a w)))"
  by (simp add: io_return_def adds_genuine_same)

lemma genuine_throw: "adds_genuine (db w) (db (snd (io_throw e w)))"
  by (simp add: io_throw_def adds_genuine_same)

lemma genuine_revalidate: "adds_genuine (db w) (db (snd (revalidatePath p w)))"
  by (simp add: revalidatePath_def adds_genuine_same)

lemma genuine_rethrow: "adds_genuine (db w) (db (snd (rethrow l p e w)))"
  by (simp add: rethrow_def io_bind_def console_error_def io_throw_def adds_genuine_same)

lemma genuine_bind:
  assumes "\<And>w. adds_genuine (db w) (db (snd (m w)))"
      and "\<And>a w. adds_genuine (db w) (db (snd (f a w)))"
  shows "adds_genuine (db w) (db (snd (io_bind m f w)))"
proof (cases "m w")
  case (Pair r w1)
  have one: "adds_genuine (db w) (db w1)" using assms(1) [of w] Pair by simp
  show ?thesis
  proof (cases r)
    case (Inl e)
    with Pair one show ?thesis by (simp add: io_bind_def)
  next
    case (Inr a)
    with Pair have "io_bind m f w = f a w1" by (simp add: io_bind_def)
    with adds_genuine_trans [OF one assms(2) [of w1 a]] show ?thesis by simp
  qed
qed

lemma genuine_catch:
  assumes "\<And>w. adds_genuine (db w) (db (snd (m w)))"
      and "\<And>e w. adds_genuine (db w) (db (snd (h e w)))"
  shows "adds_genuine (db w) (db (snd (io_catch m h w)))"
proof (cases "m w")
  case (Pair r w1)
  have one: "adds_genuine (db w) (db w1)" using assms(1) [of w] Pair by simp
  show ?thesis
  proof (cases r)
    case (Inl e)
    with Pair have "io_catch m h w = h e w1" by (simp add: io_catch_def)
    with adds_genuine_trans [OF one assms(2) [of w1 e]] show ?thesis by simp
  next
    case (Inr a)
    with Pair one show ?thesis by (simp add: io_catch_def)
  qed
qed

lemma genuine_store_call:
  assumes "\<And>d a d'. q d = Inr (a, d') \<Longrightarrow> adds_genuine d d'"
  shows "adds_genuine (db w) (db (snd (store_call q w)))"
proof (cases "store_call q w")
  case (Pair r w')
  then show ?thesis
  proof (cases rule: store_call_cases)
    case (ok a d)
    with Pair assms [of "db w" a d] show ?thesis by simp
  qed (simp_all add: Pair adds_genuine_same)
qed

lemma genuine_queries:
  "adds_genuine (db w) (db (snd (post_findUnique pid w)))"
  "adds_genuine (db w) (db (snd (like_findUnique u pid w)))"
  "adds_genuine (db w) (db (snd (like_create u pid w)))"
  "adds_genuine (db w) (db (snd (notification_findFirst a u ty p w)))"
  "adds_genuine (db w) (db (snd (user_findUnique v w)))"
  "adds_genuine (db w) (db (snd (follows_findUnique u v w)))"
  "adds_genuine (db w) (db (snd (follows_create u v w)))"
  "adds_genuine (db w) (db (snd (comment_create c pid u w)))"
  unfolding query_defs
  by (rule genuine_store_call;
      auto simp: reading_def Let_def adds_genuine_same split: option.splits if_splits)+

lemma genuine_notification_create:
  "recipient \<noteq> actor \<Longrightarrow> adds_genuine (db w) (db (snd (notification_create recipient actor ty p c w)))"
  unfolding notification_create_def
  by (rule genuine_store_call) (auto simp: Let_def adds_genuine_def genuine_def split: if_splits)

lemmas genuine_rules = genuine_bind genuine_catch genuine_return genuine_throw genuine_revalidate
  genuine_rethrow genuine_queries genuine_notification_create

lemma likePost_genuine: "adds_genuine (db w) (db (snd (likePost session postId w)))"
  unfolding likePost_def likePost_body_def
  by (auto intro!: genuine_rules split: option.splits)

lemma createComment_genuine: "adds_genuine (db w) (db (snd (createComment session postId content w)))"
  unfolding createComment_def createComment_body_def
  by (auto intro!: genuine_rules split: option.splits)

lemma followUser_genuine: "adds_genuine (db w) (db (snd (followUser session followingId w)))"
  unfolding followUser_def followUser_body_def
  by (auto intro!: genuine_rules split: option.splits)

text \<open>
  Claim C6. Whatever the store does, \<open>likePost\<close>, \<open>createComment\<close> and \<open>followUser\<close>
  leave the existing Notification rows in place and every row they add has an actor
  different from its recipient. A caller who tries to follow themselves gets the
  validation error before any call to the store: the world is the one before, with
  one more line on the console, whatever the Follows table holds.
\<close>

theorem notifications_never_to_oneself:
  "adds_genuine (db w) (db (snd (likePost session postId w)))
 \<and> adds_genuine (db w) (db (snd (createComment session postId content w)))
 \<and> adds_genuine (db w) (db (snd (followUser session followingId w)))
 \<and> (authenticated session = Some u \<longrightarrow>
       followUser session u w
         = (Inl ''Failed to follow user: You cannot follow yourself'',
            w\<lparr>console := console w @ [''Error following user: You cannot follow yourself'']\<rparr>))"
proof -
  have "followUser session u w
         = (Inl ''Failed to follow user: You cannot follow yourself'',
            w\<lparr>console := console w @ [''Error following user: You cannot follow yourself'']\<rparr>)"
    if "authenticated session = Some u"
    using that by (simp add: followUser_def followUser_body_def io_defs)
  with likePost_genuine createComment_genuine followUser_genuine show ?thesis by blast
qed

theorem notifications_never_to_oneself_witness:
  "authenticated (Some ''bob'') = Some ''bob''
 \<and> followUser (Some ''bob'') ''bob'' (followed_world\<lparr>db := (db followed_world)\<lparr>follows :=
        [demo_follow, \<lparr>f_followerId = ''bob'', f_followingId = ''bob'', f_createdAt = 1\<rparr>]\<rparr>\<rparr>)
      = (Inl ''Failed to follow user: You cannot follow yourself'',
         followed_world\<lparr>db := (db followed_world)\<lparr>follows :=
              [demo_follow, \<lparr>f_followerId = ''bob'', f_followingId = ''bob'', f_createdAt = 1\<rparr>]\<rparr>,
            console := [''Error following user: You cannot follow yourself'']\<rparr>)
 \<and> snd (likePost (Some ''bob'') 1 demo_world) = liked_world
 \<and> adds_genuine (db demo_world) (db liked_world)
 \<and> notifications (db demo_world) = []
 \<and> notifications (db liked_world) = [demo_notification]
 \<and> genuine demo_notification
 \<and> notifications (db (snd (likePost (Some ''alice'') 1 demo_world))) = []
 \<and> notifications (db (snd (createComment (Some ''alice'') 1 hello demo_world))) = []
 \<and> map n_creatorId (notifications (db (snd (createComment (Some ''bob'') 1 hello demo_world)))) = [''bob'']
 \<and> map n_userId (notifications (db (snd (createComment (Some ''bob'') 1 hello demo_world)))) = [''alice'']
 \<and> map n_creatorId (notifications (db (snd (followUser (Some ''bob'') ''alice'' demo_world)))) = [''bob'']
 \<and> map n_userId (notifications (db (snd (followUser (Some ''bob'') ''alice'' demo_world)))) = [''alice'']"
proof -
  let ?w = "followed_world\<lparr>db := (db followed_world)\<lparr>follows :=
        [demo_follow, \<lparr>f_followerId = ''bob'', f_followingId = ''bob'', f_createdAt = 1\<rparr>]\<rparr>\<rparr>"
  have a: "authenticated (Some ''bob'') = Some ''bob''" by simp
  have like: "snd (likePost (Some ''bob'') 1 demo_world) = liked_world"
    by (simp add: demo_defs likePost_def likePost_body_def io_defs query_defs store_call_def
          reading_def like_has_key_def notification_matches_def Let_def)
  have own: "notifications (db (snd (likePost (Some ''alice'') 1 demo_world))) = []"
    by (simp add: demo_defs likePost_def likePost_body_def io_defs query_defs store_call_def
          reading_def like_has_key_def notification_matches_def Let_def)
  have t: "trim hello = hello"
    by (simp add: trim_def hello_def js_whitespace_def)
  have c1: "notifications (db (snd (createComment (Some ''alice'') 1 hello demo_world))) = []"
    unfolding createComment_def createComment_body_def t
    by (simp add: demo_defs io_defs query_defs store_call_def reading_def Let_def)
  have c2: "notifications (db (snd (createComment (Some ''bob'') 1 hello demo_world)))
              = [\<lparr>n_id = 3, n_userId = ''alice'', n_creatorId = ''bob'', n_type = COMMENT,
                   n_postId = Some 1, n_commentId = Some 2, n_read = False, n_createdAt = 7\<rparr>]"
    unfolding createComment_def createComment_body_def t
    by (simp add: demo_defs io_defs query_defs store_call_def reading_def Let_def)
  have f: "notifications (db (snd (followUser (Some ''bob'') ''alice'' demo_world)))
              = [\<lparr>n_id = 2, n_userId = ''alice'', n_creatorId = ''bob'', n_type = FOLLOW,
                   n_postId = None, n_commentId = None, n_read = False, n_createdAt = 7\<rparr>]"
    by (simp add: demo_defs followUser_def followUser_body_def io_defs query_defs store_call_def
          reading_def follows_has_key_def Let_def)
  have n: "notifications (db demo_world) = []" "notifications (db liked_world) = [demo_notification]"
    "genuine demo_notification"
    by (simp_all add: demo_defs genuine_def)
  have quiet: "console ?w = []"
    by (simp add: demo_defs)
  from notifications_never_to_oneself [of demo_world "Some ''bob''" 1 hello "''alice''" "''bob''"]
       notifications_never_to_oneself [of ?w "Some ''bob''" 1 hello "''alice''" "''bob''"]
       a like own c1 c2 f n quiet
  show ?thesis by simp
qed

section \<open>Errors of the store\<close>

text \<open>
  The rules below carry \<open>surfaces\<close> through the building blocks of a server action.
\<close>

lemma surfaces_quiet: "raised (snd rw) = raised w \<Longrightarrow> surfaces prefix w rw"
  by (simp add: surfaces_def)

lemma surfaces_return: "surfaces [] w (io_return a w)"
  by (simp add: io_return_def surfaces_def)

lemma surfaces_throw: "surfaces [] w (io_throw e w)"
  by (simp add: io_throw_def surfaces_def)

lemma surfaces_revalidate: "surfaces [] w (revalidatePath p w)"
  by (simp add: revalidatePath_def surfaces_def)

lemma surfaces_store_call: "surfaces [] w (store_call q w)"
proof (cases "store_call q w")
  case (Pair r w')
  then show ?thesis
    by (cases rule: store_call_cases) (simp_all add: Pair surfaces_def)
qed

lemma surfaces_bind:
  assumes "\<And>w. surfaces [] w (m w)" and "\<And>a w. surfaces [] w (f a w)"
  shows "surfaces [] w (io_bind m f w)"
proof (cases "m w")
  case (Pair r w1)
  show ?thesis
  proof (cases r)
    case (Inl e)
    with Pair assms(1) [of w] show ?thesis by (simp add: io_bind_def surfaces_def)
  next
    case (Inr a)
    with Pair assms(1) [of w] have same: "raised w1 = raised w"
      by (simp add: surfaces_def)
    from Pair Inr have step: "io_bind m f w = f a w1" by (simp add: io_bind_def)
    have "surfaces [] w1 (f a w1)" by (rule assms(2))
    then have "surfaces [] w (f a w1)" by (auto simp: surfaces_def same split: sum.splits)
    then show ?thesis by (simp only: step)
  qed
qed

lemma surfaces_rethrow:
  assumes "\<And>w. surfaces [] w (m w)"
  shows "surfaces prefix w (io_catch m (rethrow label prefix) w)"
proof (cases "m w")
  case (Pair r w1)
  with assms [of w] show ?thesis
    by (cases r) (auto simp: surfaces_def io_catch_def rethrow_def io_bind_def console_error_def
                    io_throw_def)
qed

lemmas surfaces_rules = surfaces_bind surfaces_return surfaces_throw surfaces_revalidate
  surfaces_store_call

text \<open>
  Six of the eight mutations surface an error of the store: when the store raises
  during the action, the action throws its own prefix followed by the store's message.
\<close>

lemma store_errors_surface:
  "surfaces ''Failed to like post: '' w (likePost session postId w)"
  "surfaces ''Failed to follow user: '' w (followUser session followingId w)"
  "surfaces ''Failed to create comment: '' w (createComment session postId content w)"
  "surfaces ''Failed to delete comment: '' w (deleteComment session commentId w)"
  "surfaces ''Failed to create post: '' w (createPost session current content imageUrl w)"
  "surfaces ''Failed to delete post: '' w (deletePost session postId w)"
  unfolding likePost_def likePost_body_def followUser_def followUser_body_def
    createComment_def createComment_body_def deleteComment_def deleteComment_body_def
    createPost_def createPost_body_def deletePost_def deletePost_body_def query_defs
  by (rule surfaces_rethrow; auto intro!: surfaces_rules split: option.splits)+

text \<open>
  Claim C3 at a failing input. \<open>bob\<close> has liked the post and follows \<open>alice\<close>, and
  the store fails with \<open>connection lost\<close> on its next call. \<open>unlikePost\<close> and
  \<open>unfollowUser\<close> then return \<open>{success: false, message}\<close> as if there had been
  nothing to delete, and throw nothing: the \<^verbatim>\<open>.catch(() => null)\<close> on the delete call
  replaces every error of the store by \<^verbatim>\<open>null\<close>. \<open>likePost\<close> in the same world
  throws the wrapped error.
\<close>

theorem unlikePost_swallows_store_failure:
  "likes (db failing_world) = [demo_like]
 \<and> follows (db failing_world) = [demo_follow]
 \<and> faults failing_world = [Some ''connection lost'']
 \<and> unlikePost (Some ''bob'') 1 failing_world
      = (Inr (SuccessFalse ''Post not liked''), followed_world\<lparr>raised := [''connection lost'']\<rparr>)
 \<and> unfollowUser (Some ''bob'') ''alice'' failing_world
      = (Inr (SuccessFalse ''Not following user''), followed_world\<lparr>raised := [''connection lost'']\<rparr>)
 \<and> \<not> surfaces ''Failed to unlike post: '' failing_world (unlikePost (Some ''bob'') 1 failing_world)
 \<and> \<not> surfaces ''Failed to unfollow user: '' failing_world (unfollowUser (Some ''bob'') ''alice'' failing_world)
 \<and> likePost (Some ''alice'') 1 failing_world
      = (Inl ''Failed to like post: connection lost'',
         followed_world\<lparr>raised := [''connection lost''],
                         console := [''Error liking post: connection lost'']\<rparr>)"
  by (simp add: failing_world_def demo_defs unlikePost_def unlikePost_body_def unfollowUser_def
        unfollowUser_body_def likePost_def likePost_body_def io_defs query_defs store_call_def
        surfaces_def)

section \<open>Optimistic widgets on failure\<close>

text \<open>
  When the awaited server action rejects: the like button is back in the state it had
  before the click, the follow button shows the flag it had before the click, and the
  comment composer shows the list it had before the submit (the temporary identifier
  being new to the list). Each handler invokes the server action once. The like and
  follow handlers only write to the browser console; the comment composer puts the
  message of the error in its state, which the form displays.
\<close>

lemma handleLike_failure:
  "handleLike (Some user) postId (Inl msg) st
     = (st, [Invoke (if isLiked st then UnlikePost postId else LikePost postId),
             ConsoleError ''Error updating like:'' msg])"
  by (simp add: handleLike_def Let_def)

lemma handleFollowToggle_failure:
  "handleFollowToggle userId (Inl msg) st
     = (st\<lparr>isSubmitting := False\<rparr>,
        [Invoke (if isUserFollowing st then UnfollowUser userId else FollowUser userId),
         ConsoleError ''Error toggling follow:'' msg])"
  by (simp add: handleFollowToggle_def Let_def)

lemma handleSubmitComment_failure:
  assumes "trim (commentText st) \<noteq> []"
      and "display_username user \<noteq> None"
      and "TempId now \<notin> cm_id ` set (comments_shown st)"
  shows "handleSubmitComment (Some user) postId now (Inl msg) st
     = (st\<lparr>commentText := [], error_shown := Some msg, submitting := False\<rparr>,
        [Invoke (CreateComment postId (commentText st))])"
proof -
  have "filter (\<lambda>c. cm_id c \<noteq> TempId now) (comments_shown st) = comments_shown st"
    using assms(3) by (force simp: filter_id_conv image_iff)
  with assms(1,2) show ?thesis
    by (auto simp: handleSubmitComment_def Let_def)
qed

text \<open>
  Claim C7 at a failing input. \<open>bob\<close> clicks the like button of a post that shows
  three likes, and the follow button of \<open>alice\<close>, while the store fails with
  \<open>connection lost\<close>. The server actions throw. Each button ends in exactly the
  state it had before the click, so it renders as before, and the only other effect
  after the single call is a line on the browser console: the user is shown no error
  (the source marks the spot with \<^verbatim>\<open>TODO: Show error toast\<close>).
\<close>

theorem handleLike_failure_is_silent:
  "fst (likePost (Some ''bob'') 1 (demo_world\<lparr>faults := [Some ''connection lost'']\<rparr>))
     = Inl ''Failed to like post: connection lost''
 \<and> handleLike (Some ''bob'') 1
       (fst (likePost (Some ''bob'') 1 (demo_world\<lparr>faults := [Some ''connection lost'']\<rparr>)))
       three_likes
     = (three_likes,
        [Invoke (LikePost 1), ConsoleError ''Error updating like:'' ''Failed to like post: connection lost''])
 \<and> fst (followUser (Some ''bob'') ''alice'' (demo_world\<lparr>faults := [Some ''connection lost'']\<rparr>))
     = Inl ''Failed to follow user: connection lost''
 \<and> handleFollowToggle ''alice''
       (fst (followUser (Some ''bob'') ''alice'' (demo_world\<lparr>faults := [Some ''connection lost'']\<rparr>)))
       not_following
     = (not_following,
        [Invoke (FollowUser ''alice''),
         ConsoleError ''Error toggling follow:'' ''Failed to follow user: connection lost''])"
  by (simp add: demo_defs three_likes_def not_following_def likePost_def likePost_body_def
        followUser_def followUser_body_def io_defs query_defs store_call_def handleLike_def
        handleFollowToggle_def Let_def)

end
